theory Spec2Isabelle
  imports Complex_Main "HOL-Library.Product_Lexorder" "HOL-Library.List_Lexorder"
    "HOL-Library.Char_ord"
begin

section \<open>Python values used by the dataset analysis program\<close>

subsection \<open>Strings\<close>

text \<open>
  A Python \<open>str\<close> is modelled as a \<open>string\<close> whose characters are the code points
  0 to 255. On that range \<open>str.isspace\<close> holds for the characters below, and the only
  decimal digits are \<open>0\<close> to \<open>9\<close>.
\<close>

definition isspace :: "char \<Rightarrow> bool" where
  "isspace c \<longleftrightarrow> (of_char c :: nat) \<in> {9, 10, 11, 12, 13, 28, 29, 30, 31, 32, 133, 160}"

definition strip :: "string \<Rightarrow> string" where
  "strip s = rev (dropWhile isspace (rev (dropWhile isspace s)))"

definition endswith :: "string \<Rightarrow> string \<Rightarrow> bool" where
  "endswith s suffix \<longleftrightarrow>
     length suffix \<le> length s \<and> drop (length s - length suffix) s = suffix"

definition isdigit :: "char \<Rightarrow> bool" where
  "isdigit c \<longleftrightarrow> 48 \<le> (of_char c :: nat) \<and> (of_char c :: nat) \<le> 57"

definition digit_value :: "char \<Rightarrow> int" where
  "digit_value c = of_char c - 48"

definition lower :: "string \<Rightarrow> string" where
  "lower s = map (\<lambda>c. if 65 \<le> (of_char c :: nat) \<and> (of_char c :: nat) \<le> 90
                        then char_of (of_char c + 32 :: nat) else c) s"

text \<open>\<open>str(i)\<close>: the decimal digits of a non-negative integer, then of any integer.\<close>

function str_digits :: "int \<Rightarrow> string" where
  "str_digits i = (if i < 10 then [char_of (48 + i)]
                   else str_digits (i div 10) @ [char_of (48 + i mod 10)])"
  by pat_completeness auto
termination
  by (relation "measure nat") auto

declare str_digits.simps [simp del]

definition str_nat :: "nat \<Rightarrow> string" where
  "str_nat n = str_digits (int n)"

definition str_int :: "int \<Rightarrow> string" where
  "str_int i = (if i < 0 then ''-'' @ str_digits (- i) else str_digits i)"

subsection \<open>Exceptions\<close>

text \<open>
  A raised exception is a value: its class and its message (\<open>str(e)\<close>). A function that
  can raise returns \<open>error + 'a\<close>, with \<open>Inl\<close> for the exception.
\<close>

datatype exc_class =
  FileNotFoundError | OSError | CsvError | Exception | ValueError
  | ZeroDivisionError | OverflowError | TypeError

datatype error = Raised exc_class string

fun message :: "error \<Rightarrow> string" where
  "message (Raised c m) = m"

fun exc_class_of :: "error \<Rightarrow> exc_class" where
  "exc_class_of (Raised c m) = c"

definition bind_exc :: "error + 'a \<Rightarrow> ('a \<Rightarrow> error + 'b) \<Rightarrow> error + 'b" where
  "bind_exc r f = (case r of Inl e \<Rightarrow> Inl e | Inr x \<Rightarrow> f x)"

subsection \<open>Floating-point numbers (IEEE 754 binary64)\<close>

text \<open>
  A Python \<open>float\<close> is a binary64 value: \<open>Fin s m e\<close> stands for \<open>(-1)^s * m * 2^e\<close>
  with \<open>0 \<le> m < 2^53\<close> and \<open>-1074 \<le> e \<le> 971\<close>, in the normal form of the format
  (\<open>e = -1074\<close> or \<open>2^52 \<le> m\<close>), so both zeros are \<open>Fin s 0 (-1074)\<close>; \<open>Inf s\<close> is
  a signed infinity; all NaNs are one value.
\<close>

datatype pyfloat = Fin bool int int | Inf bool | NaN

text \<open>\<open>int.bit_length\<close> of a non-negative integer.\<close>

function bit_length :: "int \<Rightarrow> int" where
  "bit_length n = (if n \<le> 0 then 0 else 1 + bit_length (n div 2))"
  by pat_completeness auto
termination
  by (relation "measure nat") auto

declare bit_length.simps [simp del]

text \<open>\<open>ratio_ge n d k\<close>: is \<open>n / d \<ge> 2^k\<close>?\<close>

definition ratio_ge :: "int \<Rightarrow> int \<Rightarrow> int \<Rightarrow> bool" where
  "ratio_ge n d k \<longleftrightarrow> (if 0 \<le> k then d * 2 ^ nat k \<le> n else d \<le> n * 2 ^ nat (- k))"

text \<open>
  \<open>round_nearest s n d\<close> is the binary64 value nearest to \<open>(-1)^s * n / d\<close> (for \<open>n \<ge> 0\<close>
  and \<open>d > 0\<close>),
  ties to the even mantissa, overflowing to infinity: the rounding of every arithmetic
  operation and of decimal-to-binary conversion.
\<close>

definition round_nearest :: "bool \<Rightarrow> int \<Rightarrow> int \<Rightarrow> pyfloat" where
  "round_nearest s n d =
     (if n = 0 then Fin s 0 (- 1074)
      else
        let e0 = bit_length n - bit_length d - 53;
            e1 = (if ratio_ge n d (e0 + 53) then e0 + 1 else e0);
            e = max e1 (- 1074);
            num = (if e < 0 then n * 2 ^ nat (- e) else n);
            den = (if e < 0 then d else d * 2 ^ nat e);
            q = num div den;
            r = num mod den;
            m = (if den < 2 * r \<or> (2 * r = den \<and> odd q) then q + 1 else q)
        in if m = 2 ^ 53
           then (if 971 < e + 1 then Inf s else Fin s (2 ^ 52) (e + 1))
           else (if 971 < e then Inf s else Fin s m e))"

text \<open>The binary64 value nearest to \<open>(-1)^s * n * 2^e\<close>.\<close>

definition round_scaled :: "bool \<Rightarrow> int \<Rightarrow> int \<Rightarrow> pyfloat" where
  "round_scaled s n e =
     (if 0 \<le> e then round_nearest s (n * 2 ^ nat e) 1 else round_nearest s n (2 ^ nat (- e)))"

definition signed :: "bool \<Rightarrow> int \<Rightarrow> int" where
  "signed s m = (if s then - m else m)"

fun fadd :: "pyfloat \<Rightarrow> pyfloat \<Rightarrow> pyfloat" where
  "fadd NaN y = NaN"
| "fadd x NaN = NaN"
| "fadd (Inf s) (Inf t) = (if s = t then Inf s else NaN)"
| "fadd (Inf s) (Fin t m e) = Inf s"
| "fadd (Fin s m e) (Inf t) = Inf t"
| "fadd (Fin s1 m1 e1) (Fin s2 m2 e2) =
     (let e = min e1 e2;
          i = signed s1 (m1 * 2 ^ nat (e1 - e)) + signed s2 (m2 * 2 ^ nat (e2 - e))
      in if i = 0 then Fin (s1 \<and> s2) 0 (- 1074) else round_scaled (i < 0) \<bar>i\<bar> e)"

text \<open>
  Float division as Python performs it: a zero divisor raises, whatever the dividend;
  otherwise the IEEE quotient.
\<close>

fun fdiv_ieee :: "pyfloat \<Rightarrow> pyfloat \<Rightarrow> pyfloat" where
  "fdiv_ieee NaN y = NaN"
| "fdiv_ieee x NaN = NaN"
| "fdiv_ieee (Inf s) (Inf t) = NaN"
| "fdiv_ieee (Inf s) (Fin t m e) = Inf (s \<noteq> t)"
| "fdiv_ieee (Fin s m e) (Inf t) = Fin (s \<noteq> t) 0 (- 1074)"
| "fdiv_ieee (Fin s1 m1 e1) (Fin s2 m2 e2) =
     (if e2 \<le> e1 then round_nearest (s1 \<noteq> s2) (m1 * 2 ^ nat (e1 - e2)) m2
      else round_nearest (s1 \<noteq> s2) m1 (m2 * 2 ^ nat (e2 - e1)))"

fun is_zero :: "pyfloat \<Rightarrow> bool" where
  "is_zero (Fin s m e) = (m = 0)"
| "is_zero (Inf s) = False"
| "is_zero NaN = False"

definition fdiv :: "pyfloat \<Rightarrow> pyfloat \<Rightarrow> error + pyfloat" where
  "fdiv x y = (if is_zero y then Inl (Raised ZeroDivisionError ''float division by zero'')
               else Inr (fdiv_ieee x y))"

text \<open>
  Comparison is by value: \<open>order_key\<close> sends a float that is not NaN to a pair ordered
  lexicographically (infinities outside the finite values, both zeros equal); every
  comparison with NaN is false.
\<close>

definition fin_value :: "bool \<Rightarrow> int \<Rightarrow> int \<Rightarrow> rat" where
  "fin_value s m e =
     (if 0 \<le> e then of_int (signed s m * 2 ^ nat e)
      else of_int (signed s m) / of_int (2 ^ nat (- e)))"

fun order_key :: "pyfloat \<Rightarrow> (int \<times> rat) option" where
  "order_key NaN = None"
| "order_key (Inf s) = Some (if s then - 1 else 1, 0)"
| "order_key (Fin s m e) = Some (0, fin_value s m e)"

definition flt :: "pyfloat \<Rightarrow> pyfloat \<Rightarrow> bool" where
  "flt x y = (case (order_key x, order_key y) of (Some a, Some b) \<Rightarrow> a < b | _ \<Rightarrow> False)"

definition fle :: "pyfloat \<Rightarrow> pyfloat \<Rightarrow> bool" where
  "fle x y = (case (order_key x, order_key y) of (Some a, Some b) \<Rightarrow> a \<le> b | _ \<Rightarrow> False)"

definition fgt :: "pyfloat \<Rightarrow> pyfloat \<Rightarrow> bool" where
  "fgt x y = flt y x"

subsection \<open>Numbers: int and float\<close>

datatype pynum = PyInt int | PyFloat pyfloat

text \<open>Conversion of an int operand to float: correctly rounded, raising when too large.\<close>

definition int_to_float :: "int \<Rightarrow> error + pyfloat" where
  "int_to_float i =
     (case round_nearest (i < 0) \<bar>i\<bar> 1 of
        Inf s \<Rightarrow> Inl (Raised OverflowError ''int too large to convert to float'')
      | f \<Rightarrow> Inr f)"

fun py_add :: "pynum \<Rightarrow> pynum \<Rightarrow> error + pynum" where
  "py_add (PyInt a) (PyInt b) = Inr (PyInt (a + b))"
| "py_add (PyInt a) (PyFloat y) = bind_exc (int_to_float a) (\<lambda>x. Inr (PyFloat (fadd x y)))"
| "py_add (PyFloat x) (PyInt b) = bind_exc (int_to_float b) (\<lambda>y. Inr (PyFloat (fadd x y)))"
| "py_add (PyFloat x) (PyFloat y) = Inr (PyFloat (fadd x y))"

text \<open>True division \<open>a / b\<close>; the quotient of two ints is correctly rounded.\<close>

fun py_truediv :: "pynum \<Rightarrow> pynum \<Rightarrow> error + pynum" where
  "py_truediv (PyInt a) (PyInt b) =
     (if b = 0 then Inl (Raised ZeroDivisionError ''division by zero'')
      else (case round_nearest ((a < 0) \<noteq> (b < 0)) \<bar>a\<bar> \<bar>b\<bar> of
              Inf s \<Rightarrow> Inl (Raised OverflowError ''integer division result too large for a float'')
            | f \<Rightarrow> Inr (PyFloat f)))"
| "py_truediv (PyInt a) (PyFloat y) =
     bind_exc (int_to_float a) (\<lambda>x. bind_exc (fdiv x y) (\<lambda>q. Inr (PyFloat q)))"
| "py_truediv (PyFloat x) (PyInt b) =
     bind_exc (int_to_float b) (\<lambda>y. bind_exc (fdiv x y) (\<lambda>q. Inr (PyFloat q)))"
| "py_truediv (PyFloat x) (PyFloat y) = bind_exc (fdiv x y) (\<lambda>q. Inr (PyFloat q))"

text \<open>Comparison of numbers is exact, also between an int and a float.\<close>

fun num_key :: "pynum \<Rightarrow> (int \<times> rat) option" where
  "num_key (PyInt i) = Some (0, of_int i)"
| "num_key (PyFloat x) = order_key x"

definition py_ge :: "pynum \<Rightarrow> pynum \<Rightarrow> bool" where
  "py_ge a b = (case (num_key a, num_key b) of (Some x, Some y) \<Rightarrow> y \<le> x | _ \<Rightarrow> False)"

definition py_eq :: "pynum \<Rightarrow> pynum \<Rightarrow> bool" where
  "py_eq a b = (case (num_key a, num_key b) of (Some x, Some y) \<Rightarrow> x = y | _ \<Rightarrow> False)"

subsection \<open>The conversion \<open>float(s)\<close> of a string\<close>

text \<open>
  \<open>float\<close> strips whitespace, reads an optional sign, then \<open>inf\<close>, \<open>infinity\<close> or
  \<open>nan\<close> in any case, or a decimal number: digits, optionally a point and digits,
  optionally an exponent; single underscores may separate digits. The value is the
  decimal number correctly rounded. \<open>None\<close> stands for the \<open>ValueError\<close> it raises.
\<close>

definition split_sign :: "string \<Rightarrow> bool \<times> string" where
  "split_sign s =
     (case s of
        [] \<Rightarrow> (False, [])
      | c # r \<Rightarrow> if c = CHR ''-'' then (True, r) else if c = CHR ''+'' then (False, r)
                 else (False, s))"

text \<open>The longest prefix of the form digit ([\<open>_\<close>] digit)*, without its underscores.\<close>

fun digitpart :: "string \<Rightarrow> string \<times> string" where
  "digitpart [] = ([], [])"
| "digitpart (c # r) =
     (if \<not> isdigit c then ([], c # r)
      else (case r of
              u # d # r' \<Rightarrow>
                if u = CHR ''_'' \<and> isdigit d
                then (case digitpart (d # r') of (ds, rest) \<Rightarrow> (c # ds, rest))
                else (case digitpart r of (ds, rest) \<Rightarrow> (c # ds, rest))
            | _ \<Rightarrow> (case digitpart r of (ds, rest) \<Rightarrow> (c # ds, rest))))"

definition digits_value :: "string \<Rightarrow> int" where
  "digits_value ds = foldl (\<lambda>a c. 10 * a + digit_value c) 0 ds"

text \<open>A decimal number as its digits read as one integer and a power of ten.\<close>

definition parse_number :: "string \<Rightarrow> (int \<times> int) option" where
  "parse_number s =
     (case digitpart s of (ip, r1) \<Rightarrow>
      (case (case r1 of [] \<Rightarrow> ([], [])
             | c # r \<Rightarrow> if c = CHR ''.'' then digitpart r else ([], r1)) of (fp, r2) \<Rightarrow>
       if ip = [] \<and> fp = [] then None
       else (case r2 of
               [] \<Rightarrow> Some (digits_value (ip @ fp), - int (length fp))
             | c # r \<Rightarrow>
                 if c = CHR ''e'' \<or> c = CHR ''E''
                 then (case split_sign r of (es, r3) \<Rightarrow>
                       (case digitpart r3 of (ed, r4) \<Rightarrow>
                          if ed = [] \<or> r4 \<noteq> [] then None
                          else Some (digits_value (ip @ fp),
                                     signed es (digits_value ed) - int (length fp))))
                 else None)))"

definition py_float :: "string \<Rightarrow> pyfloat option" where
  "py_float s =
     (case split_sign (strip s) of (sg, r) \<Rightarrow>
        if lower r = ''inf'' \<or> lower r = ''infinity'' then Some (Inf sg)
        else if lower r = ''nan'' then Some NaN
        else (case parse_number r of
                None \<Rightarrow> None
              | Some (m, x) \<Rightarrow>
                  Some (if 0 \<le> x then round_nearest sg (m * 10 ^ nat x) 1
                        else round_nearest sg m (10 ^ nat (- x)))))"

section \<open>Error handling: validation\<close>

text \<open>
  The two failures of the validator are \<open>ValueError\<close>s told apart by their message: the
  spec's \<open>EmptyInput\<close> and \<open>InvalidValue\<close> (with the raw token and its 1-based position).
\<close>

definition EmptyInput :: error where
  "EmptyInput = Raised ValueError ''Error: File is empty''"

definition InvalidValue :: "string \<Rightarrow> nat \<Rightarrow> error" where
  "InvalidValue v i =
     Raised ValueError (''Error: Invalid non-numeric value '' @ [CHR 0x27] @ v @ [CHR 0x27]
                        @ '' at position '' @ str_nat i)"

text \<open>The loop \<open>for i, value in enumerate(data, 1)\<close>, with the list built so far.\<close>

fun validate_loop :: "nat \<Rightarrow> string list \<Rightarrow> pyfloat list \<Rightarrow> error + pyfloat list" where
  "validate_loop i [] validated_data = Inr validated_data"
| "validate_loop i (v # rest) validated_data =
     (case py_float v of
        Some num \<Rightarrow> validate_loop (i + 1) rest (validated_data @ [num])
      | None \<Rightarrow> Inl (InvalidValue v i))"

definition validate_numerical_data :: "string list \<Rightarrow> error + pyfloat list" where
  "validate_numerical_data data =
     (if data = [] then Inl EmptyInput else validate_loop 1 data [])"

section \<open>Functions: the aggregator\<close>

text \<open>\<open>total = 0\<close>, then \<open>total += value\<close> for each value: the loop with its accumulator.\<close>

fun total_loop :: "pynum \<Rightarrow> pyfloat list \<Rightarrow> error + pynum" where
  "total_loop tot [] = Inr tot"
| "total_loop tot (v # rest) =
     bind_exc (py_add tot (PyFloat v)) (\<lambda>tot'. total_loop tot' rest)"

definition calculate_total :: "pyfloat list \<Rightarrow> error + pynum" where
  "calculate_total data = total_loop (PyInt 0) data"

definition calculate_average :: "pyfloat list \<Rightarrow> error + pynum" where
  "calculate_average data =
     (if data = [] then Inr (PyInt 0)
      else bind_exc (calculate_total data)
             (\<lambda>tot. py_truediv tot (PyInt (int (length data)))))"

fun minimum_loop :: "pyfloat \<Rightarrow> pyfloat list \<Rightarrow> pyfloat" where
  "minimum_loop minimum [] = minimum"
| "minimum_loop minimum (v # rest) = minimum_loop (if flt v minimum then v else minimum) rest"

text \<open>\<open>None\<close> is Python's \<open>None\<close>.\<close>

definition calculate_minimum :: "pyfloat list \<Rightarrow> pyfloat option" where
  "calculate_minimum data =
     (case data of [] \<Rightarrow> None | first # rest \<Rightarrow> Some (minimum_loop first rest))"

fun maximum_loop :: "pyfloat \<Rightarrow> pyfloat list \<Rightarrow> pyfloat" where
  "maximum_loop maximum [] = maximum"
| "maximum_loop maximum (v # rest) = maximum_loop (if fgt v maximum then v else maximum) rest"

definition calculate_maximum :: "pyfloat list \<Rightarrow> pyfloat option" where
  "calculate_maximum data =
     (case data of [] \<Rightarrow> None | first # rest \<Rightarrow> Some (maximum_loop first rest))"

section \<open>Conditional statements: the classifier\<close>

definition default_threshold :: pynum where
  "default_threshold = PyInt 75"

definition evaluate_performance :: "pynum \<Rightarrow> pynum \<Rightarrow> string" where
  "evaluate_performance average threshold =
     (if py_ge average threshold then ''High Performance'' else ''Needs Improvement'')"

section \<open>Sets\<close>

definition get_unique_categories :: "string list \<Rightarrow> string set \<times> nat" where
  "get_unique_categories categories =
     (let unique_categories = set categories in (unique_categories, card unique_categories))"

section \<open>Files\<close>

text \<open>
  The part of the world the program touches: the text of each existing file, the paths
  whose opening for reading or for writing raises (and the exception raised), how many
  characters the device still accepts (\<open>None\<close>: no limit), and the lines printed.
\<close>

record world =
  files :: "string \<rightharpoonup> string"
  read_error :: "string \<rightharpoonup> error"
  write_error :: "string \<rightharpoonup> error"
  write_budget :: "nat option"
  console :: "string list"

definition quoted :: "string \<Rightarrow> string" where
  "quoted s = [CHR 0x27] @ s @ [CHR 0x27]"

definition print :: "world \<Rightarrow> string \<Rightarrow> world" where
  "print w line = w\<lparr>console := console w @ [line]\<rparr>"

definition open_read :: "world \<Rightarrow> string \<Rightarrow> error + string" where
  "open_read w path =
     (case read_error w path of
        Some e \<Rightarrow> Inl e
      | None \<Rightarrow>
          (case files w path of
             None \<Rightarrow> Inl (Raised FileNotFoundError
                            (''[Errno 2] No such file or directory: '' @ quoted path))
           | Some content \<Rightarrow> Inr content))"

definition open_write :: "world \<Rightarrow> string \<Rightarrow> error + world" where
  "open_write w path =
     (case write_error w path of
        Some e \<Rightarrow> Inl e
      | None \<Rightarrow> Inr (w\<lparr>files := (files w)(path \<mapsto> [])\<rparr>))"

definition file_write :: "world \<Rightarrow> string \<Rightarrow> string \<Rightarrow> error + world" where
  "file_write w path s =
     (let w' = w\<lparr>files := (files w)(path \<mapsto> (case files w path of None \<Rightarrow> [] | Some c \<Rightarrow> c) @ s)\<rparr>
      in case write_budget w of
           None \<Rightarrow> Inr w'
         | Some b \<Rightarrow>
             if b < length s then Inl (Raised OSError ''[Errno 28] No space left on device'')
             else Inr (w'\<lparr>write_budget := Some (b - length s)\<rparr>))"

text \<open>
  Iterating over a file opened in text mode: \<open>\r\n\<close> and \<open>\r\<close> are read as \<open>\n\<close>, and
  each line keeps its final \<open>\n\<close>.
\<close>

fun universal_newlines :: "string \<Rightarrow> string" where
  "universal_newlines [] = []"
| "universal_newlines [c] = (if c = CHR 0x0D then [CHR 0x0A] else [c])"
| "universal_newlines (c # d # r) =
     (if c = CHR 0x0D \<and> d = CHR 0x0A then CHR 0x0A # universal_newlines r
      else if c = CHR 0x0D then CHR 0x0A # universal_newlines (d # r)
      else c # universal_newlines (d # r))"

fun split_lines :: "string \<Rightarrow> string \<Rightarrow> string list" where
  "split_lines cur [] = (if cur = [] then [] else [cur])"
| "split_lines cur (c # cs) =
     (if c = CHR 0x0A then (cur @ [c]) # split_lines [] cs else split_lines (cur @ [c]) cs)"

definition readlines :: "string \<Rightarrow> string list" where
  "readlines content = split_lines [] (universal_newlines content)"

subsection \<open>\<open>csv.reader\<close> with the default dialect\<close>

text \<open>
  The reader of the standard library, for the dialect the program uses: delimiter \<open>,\<close>,
  quote character \<open>"\<close> doubled inside a quoted field, no escape character, not strict,
  fields of at most 131072 characters. It consumes lines and yields rows of cells; a
  character is \<open>Some c\<close>, the end of a line \<open>None\<close>.
\<close>

datatype csv_state =
  START_RECORD | START_FIELD | IN_FIELD | IN_QUOTED_FIELD | QUOTE_IN_QUOTED_FIELD | EAT_CRNL

record reader =
  state :: csv_state
  field :: string
  cells :: "string list"

definition parse_reset :: reader where
  "parse_reset = \<lparr>state = START_RECORD, field = [], cells = []\<rparr>"

definition parse_save_field :: "reader \<Rightarrow> reader" where
  "parse_save_field r = r\<lparr>cells := cells r @ [field r], field := []\<rparr>"

definition parse_add_char :: "reader \<Rightarrow> char \<Rightarrow> error + reader" where
  "parse_add_char r c =
     (if 131072 \<le> int (length (field r))
      then Inl (Raised CsvError ''field larger than field limit (131072)'')
      else Inr (r\<lparr>field := field r @ [c]\<rparr>))"

definition is_newline :: "char option \<Rightarrow> bool" where
  "is_newline c \<longleftrightarrow> c = Some (CHR 0x0A) \<or> c = Some (CHR 0x0D)"

definition end_of_record :: "reader \<Rightarrow> char option \<Rightarrow> reader" where
  "end_of_record r c =
     (parse_save_field r)\<lparr>state := (if c = None then START_RECORD else EAT_CRNL)\<rparr>"

fun parse_process_char :: "reader \<Rightarrow> char option \<Rightarrow> error + reader" where
  "parse_process_char r c =
     (case state r of
        START_RECORD \<Rightarrow>
          if c = None then Inr r
          else if is_newline c then Inr (r\<lparr>state := EAT_CRNL\<rparr>)
          else if c = Some (CHR 0x22) then Inr (r\<lparr>state := IN_QUOTED_FIELD\<rparr>)
          else if c = Some (CHR '','') then Inr ((parse_save_field r)\<lparr>state := START_FIELD\<rparr>)
          else bind_exc (parse_add_char r (the c)) (\<lambda>r'. Inr (r'\<lparr>state := IN_FIELD\<rparr>))
      | START_FIELD \<Rightarrow>
          if is_newline c \<or> c = None then Inr (end_of_record r c)
          else if c = Some (CHR 0x22) then Inr (r\<lparr>state := IN_QUOTED_FIELD\<rparr>)
          else if c = Some (CHR '','') then Inr (parse_save_field r)
          else bind_exc (parse_add_char r (the c)) (\<lambda>r'. Inr (r'\<lparr>state := IN_FIELD\<rparr>))
      | IN_FIELD \<Rightarrow>
          if is_newline c \<or> c = None then Inr (end_of_record r c)
          else if c = Some (CHR '','') then Inr ((parse_save_field r)\<lparr>state := START_FIELD\<rparr>)
          else parse_add_char r (the c)
      | IN_QUOTED_FIELD \<Rightarrow>
          if c = None then Inr r
          else if c = Some (CHR 0x22) then Inr (r\<lparr>state := QUOTE_IN_QUOTED_FIELD\<rparr>)
          else parse_add_char r (the c)
      | QUOTE_IN_QUOTED_FIELD \<Rightarrow>
          if c = Some (CHR 0x22)
          then bind_exc (parse_add_char r (CHR 0x22)) (\<lambda>r'. Inr (r'\<lparr>state := IN_QUOTED_FIELD\<rparr>))
          else if c = Some (CHR '','') then Inr ((parse_save_field r)\<lparr>state := START_FIELD\<rparr>)
          else if is_newline c \<or> c = None then Inr (end_of_record r c)
          else bind_exc (parse_add_char r (the c)) (\<lambda>r'. Inr (r'\<lparr>state := IN_FIELD\<rparr>))
      | EAT_CRNL \<Rightarrow>
          if is_newline c then Inr r
          else if c = None then Inr (r\<lparr>state := START_RECORD\<rparr>)
          else Inl (Raised CsvError ''new-line character seen in unquoted field''))"

text \<open>One line: its characters, then the end of the line.\<close>

fun process_line :: "reader \<Rightarrow> string \<Rightarrow> error + reader" where
  "process_line r [] = parse_process_char r None"
| "process_line r (c # cs) =
     bind_exc (parse_process_char r (Some c)) (\<lambda>r'. process_line r' cs)"

text \<open>
  The rows read from the remaining lines, \<open>r\<close> being the state within the current
  record. A record ends when a line leaves the reader in \<open>START_RECORD\<close>; at the end of
  the input a pending field is saved and its record returned.
\<close>

fun reader_rows :: "reader \<Rightarrow> string list \<Rightarrow> error + string list list" where
  "reader_rows r [] =
     (if field r \<noteq> [] \<or> state r = IN_QUOTED_FIELD then Inr [cells (parse_save_field r)]
      else Inr [])"
| "reader_rows r (line # lines) =
     bind_exc (process_line r line)
       (\<lambda>r'. if state r' = START_RECORD
             then bind_exc (reader_rows parse_reset lines) (\<lambda>rows. Inr (cells r' # rows))
             else reader_rows r' lines)"

definition csv_reader :: "string list \<Rightarrow> error + string list list" where
  "csv_reader lines = reader_rows parse_reset lines"

subsection \<open>The readers\<close>

text \<open>\<open>for value in row\<close>, \<open>for row in reader\<close> and \<open>for line in file\<close>, each appending to \<open>data\<close>.\<close>

fun row_loop :: "string list \<Rightarrow> string list \<Rightarrow> string list" where
  "row_loop data [] = data"
| "row_loop data (v # row) = row_loop (if strip v \<noteq> [] then data @ [strip v] else data) row"

fun rows_loop :: "string list \<Rightarrow> string list list \<Rightarrow> string list" where
  "rows_loop data [] = data"
| "rows_loop data (row # rows) = rows_loop (if row \<noteq> [] then row_loop data row else data) rows"

fun lines_loop :: "string list \<Rightarrow> string list \<Rightarrow> string list" where
  "lines_loop data [] = data"
| "lines_loop data (line # lines) =
     (let v = strip line in lines_loop (if v \<noteq> [] then data @ [v] else data) lines)"

definition read_numerical_data :: "world \<Rightarrow> string \<Rightarrow> error + string list" where
  "read_numerical_data w filename =
     (case bind_exc (open_read w filename)
             (\<lambda>content.
                if endswith filename ''.csv''
                then bind_exc (csv_reader (readlines content)) (\<lambda>rows. Inr (rows_loop [] rows))
                else Inr (lines_loop [] (readlines content))) of
        Inr data \<Rightarrow> Inr data
      | Inl e \<Rightarrow>
          if exc_class_of e = FileNotFoundError
          then Inl (Raised FileNotFoundError (''Error: File '' @ quoted filename @ '' not found''))
          else Inl (Raised Exception (''Error reading file: '' @ message e)))"

definition read_categorical_data :: "world \<Rightarrow> string \<Rightarrow> error + string list" where
  "read_categorical_data w filename =
     (case bind_exc (open_read w filename)
             (\<lambda>content. Inr (lines_loop [] (readlines content))) of
        Inr categories \<Rightarrow> Inr categories
      | Inl e \<Rightarrow>
          if exc_class_of e = FileNotFoundError
          then Inl (Raised FileNotFoundError (''Error: File '' @ quoted filename @ '' not found''))
          else Inl e)"

section \<open>Object-oriented programming: the DataSet\<close>

text \<open>The values a statistics dictionary holds: numbers, strings and \<open>None\<close>.\<close>

datatype pyvalue = Number pynum | Text string | PyNone

type_synonym dict = "string \<rightharpoonup> pyvalue"

record DataSet =
  numerical_file :: "string option"
  categorical_file :: "string option"
  numerical_data :: "pyfloat list"
  categorical_data :: "string list"
  statistics :: dict
  unique_categories :: "string set"

text \<open>The constructor \<open>DataSet(numerical_file, categorical_file)\<close>.\<close>

definition init :: "string option \<Rightarrow> string option \<Rightarrow> DataSet" where
  "init nf cf =
     \<lparr>numerical_file = nf, categorical_file = cf, numerical_data = [], categorical_data = [],
      statistics = Map.empty, unique_categories = {}\<rparr>"

text \<open>A file name counts as given when it is neither \<open>None\<close> nor the empty string.\<close>

definition given :: "string option \<Rightarrow> bool" where
  "given f \<longleftrightarrow> (case f of None \<Rightarrow> False | Some name \<Rightarrow> name \<noteq> [])"

text \<open>
  \<open>load_data\<close> changes the object and prints; when it raises, what it had stored before
  stays. The result is the exception raised, if any, the object and the world.
\<close>

definition load_failed :: "error \<Rightarrow> DataSet \<Rightarrow> world \<Rightarrow> error option \<times> DataSet \<times> world" where
  "load_failed e self w = (Some e, self, print w ('' Error loading data: '' @ message e))"

definition load_categorical :: "DataSet \<Rightarrow> world \<Rightarrow> error option \<times> DataSet \<times> world" where
  "load_categorical self w =
     (if given (categorical_file self)
      then (case read_categorical_data w (the (categorical_file self)) of
              Inl e \<Rightarrow> load_failed e self w
            | Inr categories \<Rightarrow>
                (None, self\<lparr>categorical_data := categories\<rparr>,
                 print w (''Loaded '' @ str_nat (length categories) @ '' categorical records'')))
      else (None, self, w))"

definition load_data :: "DataSet \<Rightarrow> world \<Rightarrow> error option \<times> DataSet \<times> world" where
  "load_data self w =
     (if given (numerical_file self)
      then (case bind_exc (read_numerical_data w (the (numerical_file self)))
                   validate_numerical_data of
              Inl e \<Rightarrow> load_failed e self w
            | Inr validated \<Rightarrow>
                load_categorical (self\<lparr>numerical_data := validated\<rparr>)
                  (print w ('' Loaded '' @ str_nat (length validated) @ '' numerical records'')))
      else load_categorical self w)"

definition optional :: "pyfloat option \<Rightarrow> pyvalue" where
  "optional r = (case r of None \<Rightarrow> PyNone | Some x \<Rightarrow> Number (PyFloat x))"

text \<open>The numeric block, then the categorical block, of \<open>calculate_statistics\<close>.\<close>

definition numeric_block :: "DataSet \<Rightarrow> pynum \<Rightarrow> error + DataSet" where
  "numeric_block self threshold =
     (if numerical_data self \<noteq> []
      then bind_exc (calculate_total (numerical_data self)) (\<lambda>tot.
           bind_exc (calculate_average (numerical_data self)) (\<lambda>average.
           bind_exc (calculate_average (numerical_data self)) (\<lambda>average'.
             Inr (self\<lparr>statistics :=
                    [''total'' \<mapsto> Number tot,
                     ''average'' \<mapsto> Number average,
                     ''minimum'' \<mapsto> optional (calculate_minimum (numerical_data self)),
                     ''maximum'' \<mapsto> optional (calculate_maximum (numerical_data self)),
                     ''count'' \<mapsto> Number (PyInt (int (length (numerical_data self)))),
                     ''performance'' \<mapsto> Text (evaluate_performance average' threshold)]\<rparr>))))
      else Inr self)"

definition categorical_block :: "DataSet \<Rightarrow> DataSet" where
  "categorical_block self =
     (if categorical_data self \<noteq> []
      then (case get_unique_categories (categorical_data self) of
              (unique, unique_count) \<Rightarrow>
                self\<lparr>unique_categories := unique,
                     statistics := (statistics self)(''unique_categories'' \<mapsto>
                                      Number (PyInt (int unique_count)))\<rparr>)
      else self)"

definition calculate_statistics :: "DataSet \<Rightarrow> pynum \<Rightarrow> error + DataSet" where
  "calculate_statistics self threshold =
     bind_exc (numeric_block self threshold) (\<lambda>self'. Inr (categorical_block self'))"

section \<open>Saving results\<close>

subsection \<open>Formatting\<close>

definition newline :: string where
  "newline = [CHR 0x0A]"

text \<open>Digits grouped in threes by commas.\<close>

definition group_thousands :: "string \<Rightarrow> string" where
  "group_thousands ds =
     concat (map (\<lambda>(i, c). if 0 < i \<and> (length ds - i) mod 3 = 0 then [CHR '','', c] else [c])
                 (enumerate 0 ds))"

text \<open>
  The shortest decimal string that reads back as the float (\<open>repr\<close>) is not modelled: it
  is the parameter \<open>float_repr\<close> of the functions below.
\<close>

text \<open>The format \<open>:,\<close>.\<close>

definition format_comma :: "(pyfloat \<Rightarrow> string) \<Rightarrow> pyvalue \<Rightarrow> error + string" where
  "format_comma float_repr v =
     (case v of
        Number (PyInt i) \<Rightarrow>
          Inr ((if i < 0 then ''-'' else []) @ group_thousands (str_digits \<bar>i\<bar>))
      | Number (PyFloat x) \<Rightarrow>
          (case (case float_repr x of
                   [] \<Rightarrow> ([], [])
                 | c # r \<Rightarrow> if c = CHR ''-'' then ([c], r) else ([], c # r)) of
             (sg, body) \<Rightarrow>
               Inr (sg @ group_thousands (takeWhile isdigit body) @ dropWhile isdigit body))
      | Text t \<Rightarrow>
          Inl (Raised ValueError (''Cannot specify '' @ quoted '','' @ '' with '' @ quoted ''s'' @ ''.''))
      | PyNone \<Rightarrow>
          Inl (Raised TypeError ''unsupported format string passed to NoneType.__format__''))"

text \<open>A float in fixed notation with two decimals, correctly rounded.\<close>

definition fixed2_digits :: "bool \<Rightarrow> int \<Rightarrow> int \<Rightarrow> string" where
  "fixed2_digits s m e =
     (let num = (if e < 0 then m * 100 else m * 100 * 2 ^ nat e);
          den = (if e < 0 then 2 ^ nat (- e) else 1);
          q = num div den;
          r = num mod den;
          h = (if den < 2 * r \<or> (2 * r = den \<and> odd q) then q + 1 else q)
      in (if s then ''-'' else []) @ str_digits (h div 100) @ ''.''
         @ str_digits (h mod 100 div 10) @ str_digits (h mod 10))"

definition fixed2 :: "pyfloat \<Rightarrow> string" where
  "fixed2 x =
     (case x of
        NaN \<Rightarrow> ''nan''
      | Inf s \<Rightarrow> (if s then ''-inf'' else ''inf'')
      | Fin s m e \<Rightarrow> fixed2_digits s m e)"

text \<open>The format \<open>:.2f\<close>; an int is first converted to float.\<close>

definition format_2f :: "pyvalue \<Rightarrow> error + string" where
  "format_2f v =
     (case v of
        Number (PyInt i) \<Rightarrow> bind_exc (int_to_float i) (\<lambda>x. Inr (fixed2 x))
      | Number (PyFloat x) \<Rightarrow> Inr (fixed2 x)
      | Text t \<Rightarrow>
          Inl (Raised ValueError (''Unknown format code '' @ quoted ''f''
                                  @ '' for object of type '' @ quoted ''str''))
      | PyNone \<Rightarrow>
          Inl (Raised TypeError ''unsupported format string passed to NoneType.__format__''))"

text \<open>A value inside an f-string with no format: \<open>str\<close> of it.\<close>

definition format_str :: "(pyfloat \<Rightarrow> string) \<Rightarrow> pyvalue \<Rightarrow> string" where
  "format_str float_repr v =
     (case v of
        Number (PyInt i) \<Rightarrow> str_int i
      | Number (PyFloat x) \<Rightarrow> float_repr x
      | Text t \<Rightarrow> t
      | PyNone \<Rightarrow> ''None'')"

text \<open>\<open>d.get(key, default)\<close>.\<close>

definition get :: "dict \<Rightarrow> string \<Rightarrow> pyvalue \<Rightarrow> pyvalue" where
  "get d key dflt = (case d key of None \<Rightarrow> dflt | Some v \<Rightarrow> v)"

definition line :: "string \<Rightarrow> error + string \<Rightarrow> error + string" where
  "line label formatted = bind_exc formatted (\<lambda>t. Inr (label @ t @ newline))"

subsection \<open>The report\<close>

text \<open>
  The arguments of the successive \<open>file.write\<close> calls, in order. Each is computed just
  before its call, so an argument whose formatting raises is \<open>Inl\<close> of the exception.
\<close>

definition report_items :: "(pyfloat \<Rightarrow> string) \<Rightarrow> dict \<Rightarrow> string set \<Rightarrow> (error + string) list" where
  "report_items float_repr stats unique =
     [Inr (''DATASET ANALYSIS REPORT'' @ newline),
      Inr (replicate 50 (CHR ''='') @ newline @ newline)]
     @ (if stats ''count'' \<noteq> None
        then [Inr (''NUMERICAL DATA STATISTICS:'' @ newline),
              Inr (replicate 30 (CHR ''-'') @ newline),
              line ''Total Data Points: ''
                (format_comma float_repr (get stats ''count'' (Number (PyInt 0)))),
              line ''Sum: '' (format_2f (get stats ''total'' (Number (PyInt 0)))),
              line ''Average: '' (format_2f (get stats ''average'' (Number (PyInt 0)))),
              line ''Minimum: '' (format_2f (get stats ''minimum'' (Number (PyInt 0)))),
              line ''Maximum: '' (format_2f (get stats ''maximum'' (Number (PyInt 0)))),
              Inr (''Performance: ''
                   @ format_str float_repr (get stats ''performance'' (Text ''N/A''))
                   @ newline @ newline)]
        else [])
     @ (if stats ''unique_categories'' \<noteq> None
        then [Inr (''CATEGORICAL DATA ANALYSIS:'' @ newline),
              Inr (replicate 30 (CHR ''-'') @ newline),
              Inr (''Unique Categories: ''
                   @ format_str float_repr (get stats ''unique_categories'' (Number (PyInt 0)))
                   @ newline)]
             @ (if unique \<noteq> {}
                then Inr (''List of Unique Categories:'' @ newline)
                     # map (\<lambda>category. Inr (''  - '' @ category @ newline))
                           (sorted_list_of_set unique)
                else [])
        else [])
     @ [Inr (newline @ replicate 50 (CHR ''='') @ newline),
        Inr (''Report generated by Dataset Management System'' @ newline)]"

text \<open>The writes in order, stopping at the first exception; what was written stays.\<close>

fun write_items :: "world \<Rightarrow> string \<Rightarrow> (error + string) list \<Rightarrow> error option \<times> world" where
  "write_items w path [] = (None, w)"
| "write_items w path (item # items) =
     (case item of
        Inl e \<Rightarrow> (Some e, w)
      | Inr s \<Rightarrow>
          (case file_write w path s of
             Inl e \<Rightarrow> (Some e, w)
           | Inr w' \<Rightarrow> write_items w' path items))"

text \<open>
  What a call of \<open>save_report\<close> leaves: the boolean it returns, the world, and the
  dictionary it was passed, which the caller still holds.
\<close>

record saved =
  returned :: bool
  world_after :: world
  statistics_after :: dict

definition default_filename :: string where
  "default_filename = ''analysis_report.txt''"

definition save_report ::
  "(pyfloat \<Rightarrow> string) \<Rightarrow> world \<Rightarrow> dict \<Rightarrow> string set \<Rightarrow> string \<Rightarrow> saved" where
  "save_report float_repr w stats unique filename =
     (case (case open_write w filename of
              Inl e \<Rightarrow> (Some e, w)
            | Inr w' \<Rightarrow> write_items w' filename (report_items float_repr stats unique)) of
        (None, w') \<Rightarrow>
          \<lparr>returned = True,
           world_after = print w' (''Report saved to '' @ quoted filename),
           statistics_after = stats\<rparr>
      | (Some e, w') \<Rightarrow>
          \<lparr>returned = False,
           world_after = print w' ('' Error saving report: '' @ message e),
           statistics_after = stats\<rparr>)"

section \<open>Specification vocabulary and sample inputs\<close>

text \<open>The rows of a CSV file with its blank cells, and then its empty rows, taken out.\<close>

definition without_blanks :: "string list list \<Rightarrow> string list list" where
  "without_blanks rows =
     filter (\<lambda>row. row \<noteq> []) (map (filter (\<lambda>v. strip v \<noteq> [])) rows)"

text \<open>A CSV file with a blank row and blank cells, and the same entries without them.\<close>

definition blank_world :: world where
  "blank_world =
     \<lparr>files = [''blanks.csv'' \<mapsto> ''1,,2'' @ newline @ newline @ '' ,3 '' @ newline @ '','',
               ''plain.csv'' \<mapsto> ''1,2'' @ newline @ ''3 '' @ newline],
      read_error = Map.empty, write_error = Map.empty, write_budget = None, console = []\<rparr>"

text \<open>Two DataSets whose statistics already hold a key from an earlier run.\<close>

definition stale_numeric :: DataSet where
  "stale_numeric =
     (init None None)\<lparr>numerical_data := [Fin False 4503599627370496 (- 51)],
                       statistics := [''unique_categories'' \<mapsto> Number (PyInt 7)]\<rparr>"

definition stale_categorical :: DataSet where
  "stale_categorical =
     (init None None)\<lparr>categorical_data := [''Math''],
                       statistics := [''count'' \<mapsto> Number (PyInt 7)]\<rparr>"

text \<open>The sample input of twenty values: the text, its tokens and their float values.\<close>

definition sample_input :: string where
  "sample_input = ''85,92,78,65,88,91,76,82,95,70,73,89,81,67,94,79,86,90,68,84''"

definition sample_tokens :: "string list" where
  "sample_tokens =
     [''85'', ''92'', ''78'', ''65'', ''88'', ''91'', ''76'', ''82'', ''95'', ''70'',
      ''73'', ''89'', ''81'', ''67'', ''94'', ''79'', ''86'', ''90'', ''68'', ''84'']"

definition sample_values :: "pyfloat list" where
  "sample_values =
     [Fin False 5981343255101440 (- 46), Fin False 6473924464345088 (- 46),
      Fin False 5488762045857792 (- 46), Fin False 4573968371548160 (- 46),
      Fin False 6192449487634432 (- 46), Fin False 6403555720167424 (- 46),
      Fin False 5348024557502464 (- 46), Fin False 5770237022568448 (- 46),
      Fin False 6685030696878080 (- 46), Fin False 4925812092436480 (- 46),
      Fin False 5136918324969472 (- 46), Fin False 6262818231812096 (- 46),
      Fin False 5699868278390784 (- 46), Fin False 4714705859903488 (- 46),
      Fin False 6614661952700416 (- 46), Fin False 5559130790035456 (- 46),
      Fin False 6051711999279104 (- 46), Fin False 6333186975989760 (- 46),
      Fin False 4785074604081152 (- 46), Fin False 5910974510923776 (- 46)]"

definition sample_world :: world where
  "sample_world =
     \<lparr>files = [''sample_data.csv'' \<mapsto> sample_input],
      read_error = Map.empty, write_error = Map.empty, write_budget = None, console = []\<rparr>"

text \<open>
  A world where the report path cannot be opened for writing and no input file exists,
  and one whose device accepts ten more characters.
\<close>

definition readonly_world :: world where
  "readonly_world =
     \<lparr>files = Map.empty, read_error = Map.empty,
      write_error = [''/readonly/report.txt'' \<mapsto> Raised OSError ''[Errno 13] Permission denied''],
      write_budget = None, console = []\<rparr>"

definition full_world :: world where
  "full_world =
     \<lparr>files = Map.empty, read_error = Map.empty, write_error = Map.empty,
      write_budget = Some 10, console = []\<rparr>"

section \<open>Properties of the validator\<close>


lemma validate_loop_all_valid:
  "\<forall>v\<in>set data. py_float v \<noteq> None \<Longrightarrow>
     validate_loop i data acc = Inr (acc @ map (\<lambda>v. the (py_float v)) data)"
  by (induction data arbitrary: i acc) auto






section \<open>Properties of the arithmetic\<close>

lemma bit_length_nonpos: "n \<le> 0 \<Longrightarrow> bit_length n = 0"
  by (subst bit_length.simps) simp

lemma bit_length_rec: "0 < n \<Longrightarrow> bit_length n = 1 + bit_length (n div 2)"
  by (subst bit_length.simps) simp

lemma bit_length_nonneg: "0 \<le> bit_length n"
proof (induction n rule: bit_length.induct)
  case (1 n)
  show ?case
  proof (cases "n \<le> 0")
    case True
    then show ?thesis by (simp add: bit_length_nonpos)
  next
    case False
    then have "0 \<le> bit_length (n div 2)" by (rule "1.IH")
    with False show ?thesis by (simp add: bit_length_rec)
  qed
qed

lemma bit_length_pos: "0 < n \<Longrightarrow> 1 \<le> bit_length n"
  using bit_length_nonneg [of "n div 2"] by (simp add: bit_length_rec)

lemma bit_length_1: "bit_length 1 = 1"
  by (simp add: bit_length_rec bit_length_nonpos)

lemma bit_length_lower: "0 < n \<Longrightarrow> 2 ^ nat (bit_length n - 1) \<le> n"
proof (induction n rule: bit_length.induct)
  case (1 n)
  show ?case
  proof (cases "n = 1")
    case True
    then show ?thesis by (simp add: bit_length_1)
  next
    case False
    with "1.prems" have h: "0 < n div 2" by simp
    have ih: "2 ^ nat (bit_length (n div 2) - 1) \<le> n div 2"
      using "1.IH" "1.prems" h by simp
    have bl: "bit_length n = 1 + bit_length (n div 2)"
      using "1.prems" by (rule bit_length_rec)
    have "1 \<le> bit_length (n div 2)" using h by (rule bit_length_pos)
    then have "nat (bit_length n - 1) = Suc (nat (bit_length (n div 2) - 1))"
      using bl by simp
    then have "(2::int) ^ nat (bit_length n - 1) = 2 * 2 ^ nat (bit_length (n div 2) - 1)"
      by simp
    also have "\<dots> \<le> 2 * (n div 2)" using ih by simp
    also have "\<dots> \<le> n" by simp
    finally show ?thesis .
  qed
qed

lemma bit_length_upper: "n < 2 ^ k \<Longrightarrow> bit_length n \<le> int k"
proof (induction k arbitrary: n)
  case 0
  then show ?case by (simp add: bit_length_nonpos)
next
  case (Suc k)
  show ?case
  proof (cases "n \<le> 0")
    case True
    then show ?thesis by (simp add: bit_length_nonpos)
  next
    case False
    from Suc.prems have "n div 2 < 2 ^ k" by simp
    then have "bit_length (n div 2) \<le> int k" by (rule Suc.IH)
    with False show ?thesis by (simp add: bit_length_rec)
  qed
qed

lemma round_nearest_int_not_zero:
  assumes "0 < n"
  shows "\<not> is_zero (round_nearest s n 1)"
proof -
  define e0 where "e0 = bit_length n - bit_length 1 - 53"
  define e1 where "e1 = (if ratio_ge n 1 (e0 + 53) then e0 + 1 else e0)"
  define e where "e = max e1 (- 1074)"
  define num where "num = (if e < 0 then n * 2 ^ nat (- e) else n)"
  define den where "den = (if e < 0 then 1 else 1 * 2 ^ nat e :: int)"
  define q where "q = num div den"
  define r where "r = num mod den"
  define m where "m = (if den < 2 * r \<or> (2 * r = den \<and> odd q) then q + 1 else q)"
  have rn: "round_nearest s n 1 =
      (if m = 2 ^ 53 then (if 971 < e + 1 then Inf s else Fin s (2 ^ 52) (e + 1))
       else (if 971 < e then Inf s else Fin s m e))"
    using assms unfolding round_nearest_def Let_def e0_def e1_def e_def num_def den_def q_def r_def m_def
    by simp
  have den_pos: "0 < den" by (simp add: den_def)
  have "den \<le> num"
  proof (cases "e < 0")
    case True
    have "1 * 1 \<le> n * 2 ^ nat (- e)" using assms by (intro mult_mono) auto
    with True show ?thesis by (simp add: num_def den_def)
  next
    case False
    have "e \<le> bit_length n - 53"
      using False by (auto simp: e_def e1_def e0_def bit_length_1 split: if_splits)
    then have "nat e \<le> nat (bit_length n - 1)" by simp
    then have "(2::int) ^ nat e \<le> 2 ^ nat (bit_length n - 1)"
      by (intro power_increasing) auto
    also have "\<dots> \<le> n" using assms by (rule bit_length_lower)
    finally show ?thesis using False by (simp add: num_def den_def)
  qed
  then have "0 < q"
    using den_pos unfolding q_def by (simp add: pos_imp_zdiv_pos_iff)
  then have "m \<noteq> 0" by (simp add: m_def)
  then show ?thesis by (simp add: rn)
qed

lemma round_nearest_int_not_Inf:
  assumes "0 \<le> n" and "n < 2 ^ 1023"
  shows "round_nearest s n 1 \<noteq> Inf t"
proof (cases "n = 0")
  case True
  then show ?thesis by (simp add: round_nearest_def)
next
  case False
  define e0 where "e0 = bit_length n - bit_length 1 - 53"
  define e1 where "e1 = (if ratio_ge n 1 (e0 + 53) then e0 + 1 else e0)"
  define e where "e = max e1 (- 1074)"
  define num where "num = (if e < 0 then n * 2 ^ nat (- e) else n)"
  define den where "den = (if e < 0 then 1 else 1 * 2 ^ nat e :: int)"
  define q where "q = num div den"
  define r where "r = num mod den"
  define m where "m = (if den < 2 * r \<or> (2 * r = den \<and> odd q) then q + 1 else q)"
  have rn: "round_nearest s n 1 =
      (if m = 2 ^ 53 then (if 971 < e + 1 then Inf s else Fin s (2 ^ 52) (e + 1))
       else (if 971 < e then Inf s else Fin s m e))"
    using False unfolding round_nearest_def Let_def e0_def e1_def e_def num_def den_def q_def r_def m_def
    by simp
  have "bit_length n \<le> 1023" using bit_length_upper [OF assms(2)] by simp
  then have "e \<le> 970"
    by (auto simp: e_def e1_def e0_def bit_length_1 split: if_splits)
  then show ?thesis by (simp add: rn)
qed

lemma int_to_float_0: "int_to_float 0 = Inr (Fin False 0 (- 1074))"
  by (simp add: int_to_float_def round_nearest_def)

lemma int_to_float_Inr:
  "int_to_float n = Inr y \<Longrightarrow> y = round_nearest (n < 0) \<bar>n\<bar> 1"
  by (auto simp: int_to_float_def split: pyfloat.splits)

lemma int_to_float_not_zero:
  assumes "0 < n" and "int_to_float n = Inr y"
  shows "\<not> is_zero y"
proof -
  have "y = round_nearest False n 1"
    using int_to_float_Inr [OF assms(2)] assms(1) by simp
  then show ?thesis using round_nearest_int_not_zero [OF assms(1)] by simp
qed

lemma int_to_float_small:
  "0 \<le> n \<Longrightarrow> n < 2 ^ 1023 \<Longrightarrow> \<exists>y. int_to_float n = Inr y"
  using round_nearest_int_not_Inf [of n False]
  by (auto simp: int_to_float_def split: pyfloat.splits)

section \<open>Properties of the aggregator\<close>

lemma total_loop_float:
  "total_loop (PyFloat a) data = Inr (PyFloat (foldl fadd a data))"
  by (induction data arbitrary: a) (simp_all add: bind_exc_def)

lemma calculate_total_nonempty:
  "data \<noteq> [] \<Longrightarrow>
     calculate_total data = Inr (PyFloat (foldl fadd (Fin False 0 (- 1074)) data))"
  by (cases data)
     (simp_all add: calculate_total_def bind_exc_def int_to_float_0 total_loop_float)


lemma truediv_float_int:
  "py_truediv (PyFloat x) (PyInt n) =
     (case int_to_float n of
        Inl e \<Rightarrow> Inl e
      | Inr y \<Rightarrow> if is_zero y then Inl (Raised ZeroDivisionError ''float division by zero'')
                 else Inr (PyFloat (fdiv_ieee x y)))"
  by (simp add: bind_exc_def fdiv_def split: sum.splits)


lemma calculate_average_nonempty:
  assumes "data \<noteq> []"
  shows "calculate_average data =
     (case int_to_float (int (length data)) of
        Inl e \<Rightarrow> Inl e
      | Inr y \<Rightarrow> Inr (PyFloat (fdiv_ieee (foldl fadd (Fin False 0 (- 1074)) data) y)))"
proof -
  have pos: "0 < int (length data)" using assms by simp
  show ?thesis
    using assms int_to_float_not_zero [OF pos]
    by (auto simp: calculate_average_def calculate_total_nonempty bind_exc_def fdiv_def
             split: sum.splits)
qed







lemma order_key_None: "order_key x = None \<longleftrightarrow> x = NaN"
  by (cases x) simp_all

lemma flt_irrefl: "\<not> flt x x"
  by (simp add: flt_def split: option.splits)

lemma flt_trans: "flt x y \<Longrightarrow> flt y z \<Longrightarrow> flt x z"
  by (auto simp: flt_def split: option.splits)

lemma not_flt_fle: "x \<noteq> NaN \<Longrightarrow> y \<noteq> NaN \<Longrightarrow> \<not> flt x y \<Longrightarrow> fle y x"
  by (auto simp: flt_def fle_def order_key_None split: option.splits)

lemma minimum_loop_mem: "minimum_loop m data \<in> set (m # data)"
  by (induction data arbitrary: m) auto

lemma maximum_loop_mem: "maximum_loop m data \<in> set (m # data)"
  by (induction data arbitrary: m) auto

lemma minimum_loop_least:
  "\<forall>x\<in>set seen. \<not> flt x m \<Longrightarrow>
     \<forall>x\<in>set seen \<union> set data. \<not> flt x (minimum_loop m data)"
proof (induction data arbitrary: m seen)
  case Nil
  then show ?case by simp
next
  case (Cons v rest)
  define m' where "m' = (if flt v m then v else m)"
  have "\<forall>x\<in>set (v # seen). \<not> flt x m'"
    using Cons.prems by (auto simp: m'_def flt_irrefl dest: flt_trans)
  then have "\<forall>x\<in>set (v # seen) \<union> set rest. \<not> flt x (minimum_loop m' rest)"
    by (rule Cons.IH)
  then show ?case by (simp add: m'_def)
qed

lemma maximum_loop_greatest:
  "\<forall>x\<in>set seen. \<not> fgt x m \<Longrightarrow>
     \<forall>x\<in>set seen \<union> set data. \<not> fgt x (maximum_loop m data)"
proof (induction data arbitrary: m seen)
  case Nil
  then show ?case by simp
next
  case (Cons v rest)
  define m' where "m' = (if fgt v m then v else m)"
  have "\<forall>x\<in>set (v # seen). \<not> fgt x m'"
    using Cons.prems by (auto simp: m'_def fgt_def flt_irrefl dest: flt_trans)
  then have "\<forall>x\<in>set (v # seen) \<union> set rest. \<not> fgt x (maximum_loop m' rest)"
    by (rule Cons.IH)
  then show ?case by (simp add: m'_def)
qed

lemma calculate_minimum_least:
  "calculate_minimum data = Some m \<Longrightarrow> m \<in> set data \<and> (\<forall>x\<in>set data. \<not> flt x m)"
  using minimum_loop_mem [of "hd data" "tl data"]
    minimum_loop_least [of "[hd data]" "hd data" "tl data"]
  by (cases data) (auto simp: calculate_minimum_def flt_irrefl)

lemma calculate_maximum_greatest:
  "calculate_maximum data = Some M \<Longrightarrow> M \<in> set data \<and> (\<forall>x\<in>set data. \<not> fgt x M)"
  using maximum_loop_mem [of "hd data" "tl data"]
    maximum_loop_greatest [of "[hd data]" "hd data" "tl data"]
  by (cases data) (auto simp: calculate_maximum_def fgt_def flt_irrefl)

text \<open>
  Claim C3 as stated fails on a sequence that holds NaN, which the validator accepts
  (the token \<open>nan\<close>): the minimum of NaN, 1.0 is NaN, and \<open>NaN <= 1.0\<close> is false.
\<close>

theorem minimum_maximum_counterexample:
  "validate_numerical_data [''nan'', ''1''] = Inr [NaN, Fin False 4503599627370496 (- 52)]
   \<and> calculate_minimum [NaN, Fin False 4503599627370496 (- 52)] = Some NaN
   \<and> \<not> fle NaN (Fin False 4503599627370496 (- 52))"
  by code_simp

text \<open>
  Claim C3, amended. \<open>calculate_minimum\<close> and \<open>calculate_maximum\<close> return \<open>None\<close> for
  the empty sequence and never raise. For every non-empty sequence they return elements
  \<open>m\<close> and \<open>M\<close> of the sequence such that no element is less than \<open>m\<close> and none is
  greater than \<open>M\<close>; when no element is NaN, \<open>m <= x <= M\<close> for every element \<open>x\<close>.
\<close>

theorem calculate_minimum_maximum:
  "calculate_minimum [] = None \<and> calculate_maximum [] = None
   \<and> (data \<noteq> [] \<longrightarrow>
        (\<exists>m M. calculate_minimum data = Some m \<and> calculate_maximum data = Some M
           \<and> m \<in> set data \<and> M \<in> set data
           \<and> (\<forall>x\<in>set data. \<not> flt x m \<and> \<not> fgt x M)
           \<and> (NaN \<notin> set data \<longrightarrow> (\<forall>x\<in>set data. fle m x \<and> fle x M))))"
proof (intro conjI impI)
  show "calculate_minimum [] = None" by (simp add: calculate_minimum_def)
  show "calculate_maximum [] = None" by (simp add: calculate_maximum_def)
next
  assume ne: "data \<noteq> []"
  then obtain m where m: "calculate_minimum data = Some m"
    by (cases data) (auto simp: calculate_minimum_def)
  from ne obtain M where M: "calculate_maximum data = Some M"
    by (cases data) (auto simp: calculate_maximum_def)
  note lo = calculate_minimum_least [OF m]
  note hi = calculate_maximum_greatest [OF M]
  have "\<forall>x\<in>set data. fle m x \<and> fle x M" if "NaN \<notin> set data"
  proof
    fix x assume x: "x \<in> set data"
    with that lo hi have "x \<noteq> NaN" "m \<noteq> NaN" "M \<noteq> NaN" by auto
    moreover have "\<not> flt x m" "\<not> flt M x" using lo hi x by (auto simp: fgt_def)
    ultimately show "fle m x \<and> fle x M" by (simp add: not_flt_fle)
  qed
  with m M lo hi
  show "\<exists>m M. calculate_minimum data = Some m \<and> calculate_maximum data = Some M
           \<and> m \<in> set data \<and> M \<in> set data
           \<and> (\<forall>x\<in>set data. \<not> flt x m \<and> \<not> fgt x M)
           \<and> (NaN \<notin> set data \<longrightarrow> (\<forall>x\<in>set data. fle m x \<and> fle x M))"
    by blast
qed

lemma witness_minimum:
  "calculate_minimum [Fin False 4503599627370496 (- 51), Fin False 4503599627370496 (- 52)]
   = Some (Fin False 4503599627370496 (- 52))"
  by code_simp

lemma witness_maximum:
  "calculate_maximum [Fin False 4503599627370496 (- 51), Fin False 4503599627370496 (- 52)]
   = Some (Fin False 4503599627370496 (- 51))"
  by code_simp

theorem calculate_minimum_maximum_witness:
  "[Fin False 4503599627370496 (- 51), Fin False 4503599627370496 (- 52)] \<noteq> []
   \<and> NaN \<notin> set [Fin False 4503599627370496 (- 51), Fin False 4503599627370496 (- 52)]
   \<and> calculate_minimum [Fin False 4503599627370496 (- 51), Fin False 4503599627370496 (- 52)]
       = Some (Fin False 4503599627370496 (- 52))
   \<and> calculate_maximum [Fin False 4503599627370496 (- 51), Fin False 4503599627370496 (- 52)]
       = Some (Fin False 4503599627370496 (- 51))
   \<and> fle (Fin False 4503599627370496 (- 52)) (Fin False 4503599627370496 (- 51))
   \<and> fle (Fin False 4503599627370496 (- 51)) (Fin False 4503599627370496 (- 51))"
  using calculate_minimum_maximum
    [of "[Fin False 4503599627370496 (- 51), Fin False 4503599627370496 (- 52)]"]
    witness_minimum witness_maximum
  by auto

section \<open>Properties of the classifier and of the category set\<close>

lemma py_float_74_999: "py_float ''74.999'' = Some (Fin False 5277585444580622 (- 46))"
  by code_simp

lemma performance_examples:
  "evaluate_performance (PyInt 75) (PyInt 75) = ''High Performance''"
  "evaluate_performance (PyFloat (Fin False 5277585444580622 (- 46))) (PyInt 75)
     = ''Needs Improvement''"
  "evaluate_performance (PyInt 0) (PyInt (- 10)) = ''High Performance''"
  "evaluate_performance (PyInt 100) (PyInt 150) = ''Needs Improvement''"
  "evaluate_performance (PyFloat NaN) (PyInt 75) = ''Needs Improvement''"
  by code_simp+

text \<open>
  Claim C4. For every average and every threshold, \<open>evaluate_performance\<close> returns
  \<open>High Performance\<close> exactly when \<open>average >= threshold\<close> and \<open>Needs Improvement\<close>
  exactly when not; on ints \<open>>=\<close> is the order of the integers. The default threshold is
  75, the boundary is inclusive (75 against 75 is high, 74.999 against 75 is not), and
  thresholds below 0 or above 100 are taken as they are.
\<close>

theorem evaluate_performance_threshold:
  "(evaluate_performance average threshold = ''High Performance'' \<longleftrightarrow> py_ge average threshold)
   \<and> (evaluate_performance average threshold = ''Needs Improvement''
        \<longleftrightarrow> \<not> py_ge average threshold)
   \<and> (py_ge (PyInt a) (PyInt t) \<longleftrightarrow> t \<le> a)
   \<and> default_threshold = PyInt 75
   \<and> evaluate_performance (PyInt 75) (PyInt 75) = ''High Performance''
   \<and> py_float ''74.999'' = Some (Fin False 5277585444580622 (- 46))
   \<and> evaluate_performance (PyFloat (Fin False 5277585444580622 (- 46))) (PyInt 75)
       = ''Needs Improvement''
   \<and> evaluate_performance (PyInt 0) (PyInt (- 10)) = ''High Performance''
   \<and> evaluate_performance (PyInt 100) (PyInt 150) = ''Needs Improvement''"
  by (simp add: performance_examples py_float_74_999 default_threshold_def)
     (simp add: evaluate_performance_def py_ge_def)

lemma unique_example:
  "get_unique_categories [''Math'', ''Physics'', ''Math''] = ({''Math'', ''Physics''}, 2)"
proof -
  have "set [''Math'', ''Physics'', ''Math''] = {''Math'', ''Physics''}" by auto
  moreover have "card {''Math'', ''Physics''} = 2" by simp
  ultimately show ?thesis by (simp add: get_unique_categories_def Let_def)
qed

text \<open>
  Claim C5. \<open>get_unique_categories\<close> returns the set of the distinct elements of the
  sequence and a count equal to the cardinality of that set, the number of distinct
  elements. For Math, Physics, Math the result is the set of Math and Physics, in
  whichever order it is written, and 2.
\<close>

theorem get_unique_categories_set_count:
  "fst (get_unique_categories categories) = set categories
   \<and> snd (get_unique_categories categories) = card (fst (get_unique_categories categories))
   \<and> snd (get_unique_categories categories) = length (remdups categories)
   \<and> get_unique_categories [''Math'', ''Physics'', ''Math''] = ({''Math'', ''Physics''}, 2)
   \<and> ({''Math'', ''Physics''} :: string set) = {''Physics'', ''Math''}"
proof (intro conjI)
  show "get_unique_categories [''Math'', ''Physics'', ''Math''] = ({''Math'', ''Physics''}, 2)"
    by (rule unique_example)
  show "({''Math'', ''Physics''} :: string set) = {''Physics'', ''Math''}" by auto
qed (simp_all add: get_unique_categories_def Let_def length_remdups_card_conv)

section \<open>Properties of the readers\<close>

lemma row_loop_eq:
  "row_loop data row = data @ map strip (filter (\<lambda>v. strip v \<noteq> []) row)"
  by (induction row arbitrary: data) auto

lemma rows_loop_eq:
  "rows_loop data rows = data @ map strip (filter (\<lambda>v. strip v \<noteq> []) (concat rows))"
  by (induction rows arbitrary: data) (auto simp: row_loop_eq)

lemma concat_without_blanks:
  "filter (\<lambda>v. strip v \<noteq> []) (concat (without_blanks rows))
   = filter (\<lambda>v. strip v \<noteq> []) (concat rows)"
  by (induction rows) (auto simp: without_blanks_def)

lemma read_numerical_data_csv:
  assumes "endswith filename ''.csv''" and "open_read w filename = Inr content"
    and "csv_reader (readlines content) = Inr rows"
  shows "read_numerical_data w filename
         = Inr (map strip (filter (\<lambda>v. strip v \<noteq> []) (concat rows)))"
  using assms by (simp add: read_numerical_data_def bind_exc_def rows_loop_eq)

lemma blanks_example_rows:
  "csv_reader (readlines (''1,,2'' @ newline @ newline @ '' ,3 '' @ newline @ '',''))
   = Inr [[''1'', [], ''2''], [], ['' '', ''3 ''], [[], []]]"
  "csv_reader (readlines (''1,2'' @ newline @ ''3 '' @ newline)) = Inr [[''1'', ''2''], [''3 '']]"
  by code_simp+

text \<open>
  Claim C8. For a path ending in \<open>.csv\<close>, \<open>read_numerical_data\<close> returns the cells
  of all rows the CSV reader yields, in order, without the blank ones (empty or only
  whitespace) and each stripped of surrounding whitespace. Hence a file whose rows are
  those of another with the blank cells and the empty rows taken out gives exactly the same
  token sequence. A file with a blank row, blank cells and a row of blank cells only
  is read as the rows of the example.
\<close>

theorem read_numerical_data_skips_blanks:
  "(endswith filename ''.csv'' \<and> open_read w filename = Inr content
      \<and> csv_reader (readlines content) = Inr rows
    \<longrightarrow> read_numerical_data w filename
          = Inr (map strip (filter (\<lambda>v. strip v \<noteq> []) (concat rows))))
   \<and> (endswith filename ''.csv'' \<and> open_read w filename = Inr content
        \<and> csv_reader (readlines content) = Inr rows
        \<and> endswith filename' ''.csv'' \<and> open_read w' filename' = Inr content'
        \<and> csv_reader (readlines content') = Inr (without_blanks rows)
      \<longrightarrow> read_numerical_data w filename = read_numerical_data w' filename')
   \<and> csv_reader (readlines (''1,,2'' @ newline @ newline @ '' ,3 '' @ newline @ '',''))
       = Inr [[''1'', [], ''2''], [], ['' '', ''3 ''], [[], []]]
   \<and> csv_reader (readlines (''1,2'' @ newline @ ''3 '' @ newline)) = Inr [[''1'', ''2''], [''3 '']]"
proof (intro conjI impI)
  assume "endswith filename ''.csv'' \<and> open_read w filename = Inr content
      \<and> csv_reader (readlines content) = Inr rows"
  then show "read_numerical_data w filename
      = Inr (map strip (filter (\<lambda>v. strip v \<noteq> []) (concat rows)))"
    by (simp add: read_numerical_data_csv)
next
  assume h: "endswith filename ''.csv'' \<and> open_read w filename = Inr content
      \<and> csv_reader (readlines content) = Inr rows
      \<and> endswith filename' ''.csv'' \<and> open_read w' filename' = Inr content'
      \<and> csv_reader (readlines content') = Inr (without_blanks rows)"
  then have "read_numerical_data w filename
      = Inr (map strip (filter (\<lambda>v. strip v \<noteq> []) (concat rows)))"
    by (simp add: read_numerical_data_csv)
  moreover from h have "read_numerical_data w' filename'
      = Inr (map strip (filter (\<lambda>v. strip v \<noteq> []) (concat (without_blanks rows))))"
    by (simp add: read_numerical_data_csv)
  ultimately show "read_numerical_data w filename = read_numerical_data w' filename'"
    by (simp only: concat_without_blanks)
qed (rule blanks_example_rows)+

lemma blank_world_facts:
  "endswith ''blanks.csv'' ''.csv''"
  "endswith ''plain.csv'' ''.csv''"
  "open_read blank_world ''blanks.csv''
     = Inr (''1,,2'' @ newline @ newline @ '' ,3 '' @ newline @ '','')"
  "open_read blank_world ''plain.csv'' = Inr (''1,2'' @ newline @ ''3 '' @ newline)"
  "csv_reader (readlines (''1,2'' @ newline @ ''3 '' @ newline))
     = Inr (without_blanks [[''1'', [], ''2''], [], ['' '', ''3 ''], [[], []]])"
  by code_simp+

theorem read_numerical_data_skips_blanks_witness:
  "endswith ''blanks.csv'' ''.csv''
   \<and> open_read blank_world ''blanks.csv''
       = Inr (''1,,2'' @ newline @ newline @ '' ,3 '' @ newline @ '','')
   \<and> csv_reader (readlines (''1,,2'' @ newline @ newline @ '' ,3 '' @ newline @ '',''))
       = Inr [[''1'', [], ''2''], [], ['' '', ''3 ''], [[], []]]
   \<and> endswith ''plain.csv'' ''.csv''
   \<and> open_read blank_world ''plain.csv'' = Inr (''1,2'' @ newline @ ''3 '' @ newline)
   \<and> csv_reader (readlines (''1,2'' @ newline @ ''3 '' @ newline))
       = Inr (without_blanks [[''1'', [], ''2''], [], ['' '', ''3 ''], [[], []]])
   \<and> read_numerical_data blank_world ''blanks.csv'' = Inr [''1'', ''2'', ''3'']
   \<and> read_numerical_data blank_world ''blanks.csv''
       = read_numerical_data blank_world ''plain.csv''"
proof -
  have tokens: "map strip (filter (\<lambda>v. strip v \<noteq> [])
      (concat [[''1'', [], ''2''], [], ['' '', ''3 ''], [[], []]])) = [''1'', ''2'', ''3'']"
    by code_simp
  note inst = read_numerical_data_skips_blanks
    [of "''blanks.csv''" blank_world "''1,,2'' @ newline @ newline @ '' ,3 '' @ newline @ '',''"
        "[[''1'', [], ''2''], [], ['' '', ''3 ''], [[], []]]"
        "''plain.csv''" blank_world "''1,2'' @ newline @ ''3 '' @ newline"]
  note facts = blank_world_facts blanks_example_rows(1)
  have r1: "read_numerical_data blank_world ''blanks.csv'' = Inr (map strip
      (filter (\<lambda>v. strip v \<noteq> []) (concat [[''1'', [], ''2''], [], ['' '', ''3 ''], [[], []]])))"
    using inst facts by blast
  have r2: "read_numerical_data blank_world ''blanks.csv''
      = read_numerical_data blank_world ''plain.csv''"
    using inst facts by blast
  show ?thesis
    using r1 r2 facts unfolding tokens by (intro conjI)
qed

section \<open>Properties of the DataSet\<close>

lemma calculate_average_small:
  assumes "data \<noteq> []" and "length data < 2 ^ 1023"
  shows "\<exists>q. calculate_average data = Inr (PyFloat q)"
proof -
  have "int (length data) < 2 ^ 1023"
    using assms(2) by (metis of_nat_less_iff of_nat_numeral of_nat_power)
  then obtain n where "int_to_float (int (length data)) = Inr n"
    using int_to_float_small [of "int (length data)"] by auto
  then show ?thesis by (simp add: calculate_average_nonempty [OF assms(1)])
qed

lemma numeric_block_empty: "numerical_data self = [] \<Longrightarrow> numeric_block self t = Inr self"
  by (simp add: numeric_block_def)

lemma numeric_block_statistics:
  assumes "numerical_data self \<noteq> []"
  shows "numeric_block (self\<lparr>statistics := s\<rparr>) t = numeric_block self t"
  using assms by (simp add: numeric_block_def)

lemma numeric_block_dom:
  assumes "numerical_data self \<noteq> []" and "numeric_block self t = Inr self'"
  shows "dom (statistics self')
         = {''total'', ''average'', ''minimum'', ''maximum'', ''count'', ''performance''}
       \<and> categorical_data self' = categorical_data self"
  using assms
  by (auto simp: numeric_block_def bind_exc_def split: sum.splits if_splits)

lemma numeric_block_small:
  assumes "numerical_data self \<noteq> []" and "length (numerical_data self) < 2 ^ 1023"
  shows "\<exists>self'. numeric_block self t = Inr self'"
  using assms calculate_average_small [OF assms]
  by (auto simp: numeric_block_def bind_exc_def calculate_total_nonempty)

lemma categorical_block_statistics:
  "categorical_data self \<noteq> [] \<Longrightarrow>
     statistics (categorical_block self)
     = (statistics self)(''unique_categories'' \<mapsto>
          Number (PyInt (int (card (set (categorical_data self))))))"
  by (simp add: categorical_block_def get_unique_categories_def Let_def)

lemma categorical_block_unique:
  "categorical_data self \<noteq> [] \<Longrightarrow>
     unique_categories (categorical_block self) = set (categorical_data self)"
  by (simp add: categorical_block_def get_unique_categories_def Let_def)

text \<open>
  Claim C6. On a DataSet as the constructor leaves it (empty statistics, no numeric
  data) whose categorical data is not empty, \<open>calculate_statistics\<close> returns normally
  and the statistics hold exactly the key \<open>unique_categories\<close>, with the number of
  distinct categories, and none of the numeric keys. Each block works from its own data:
  the numeric block does not depend on the categorical data, nor the categorical block
  on the numeric data.
\<close>

theorem calculate_statistics_categorical_only:
  "(numerical_data self = [] \<and> categorical_data self \<noteq> [] \<and> statistics self = Map.empty
    \<longrightarrow> (\<exists>self'. calculate_statistics self threshold = Inr self'
           \<and> dom (statistics self') = {''unique_categories''}
           \<and> statistics self' ''unique_categories''
               = Some (Number (PyInt (int (card (set (categorical_data self))))))
           \<and> ''count'' \<notin> dom (statistics self') \<and> ''total'' \<notin> dom (statistics self')
           \<and> ''average'' \<notin> dom (statistics self') \<and> ''minimum'' \<notin> dom (statistics self')
           \<and> ''maximum'' \<notin> dom (statistics self')
           \<and> ''performance'' \<notin> dom (statistics self')
           \<and> unique_categories self' = set (categorical_data self)))
   \<and> numeric_block (self\<lparr>categorical_data := cs\<rparr>) threshold
       = map_sum id (categorical_data_update (\<lambda>_. cs)) (numeric_block self threshold)
   \<and> categorical_block (self\<lparr>numerical_data := ns\<rparr>)
       = (categorical_block self)\<lparr>numerical_data := ns\<rparr>"
proof (intro conjI impI)
  assume h: "numerical_data self = [] \<and> categorical_data self \<noteq> []
      \<and> statistics self = Map.empty"
  then have "calculate_statistics self threshold = Inr (categorical_block self)"
    by (simp add: calculate_statistics_def numeric_block_empty bind_exc_def)
  moreover have "statistics (categorical_block self)
      = [''unique_categories'' \<mapsto> Number (PyInt (int (card (set (categorical_data self)))))]"
    using h by (simp add: categorical_block_statistics)
  moreover have "unique_categories (categorical_block self) = set (categorical_data self)"
    using h by (simp add: categorical_block_unique)
  ultimately show "\<exists>self'. calculate_statistics self threshold = Inr self'
           \<and> dom (statistics self') = {''unique_categories''}
           \<and> statistics self' ''unique_categories''
               = Some (Number (PyInt (int (card (set (categorical_data self))))))
           \<and> ''count'' \<notin> dom (statistics self') \<and> ''total'' \<notin> dom (statistics self')
           \<and> ''average'' \<notin> dom (statistics self') \<and> ''minimum'' \<notin> dom (statistics self')
           \<and> ''maximum'' \<notin> dom (statistics self')
           \<and> ''performance'' \<notin> dom (statistics self')
           \<and> unique_categories self' = set (categorical_data self)"
    by simp
next
  show "numeric_block (self\<lparr>categorical_data := cs\<rparr>) threshold
       = map_sum id (categorical_data_update (\<lambda>_. cs)) (numeric_block self threshold)"
    by (simp add: numeric_block_def bind_exc_def split: sum.splits)
next
  show "categorical_block (self\<lparr>numerical_data := ns\<rparr>)
       = (categorical_block self)\<lparr>numerical_data := ns\<rparr>"
    by (simp add: categorical_block_def split: prod.splits)
qed

theorem calculate_statistics_categorical_only_witness:
  "numerical_data ((init None (Some ''categories.txt''))\<lparr>categorical_data := [''Math'', ''Physics'', ''Math'']\<rparr>) = []
   \<and> categorical_data ((init None (Some ''categories.txt''))\<lparr>categorical_data := [''Math'', ''Physics'', ''Math'']\<rparr>) \<noteq> []
   \<and> statistics ((init None (Some ''categories.txt''))\<lparr>categorical_data := [''Math'', ''Physics'', ''Math'']\<rparr>) = Map.empty
   \<and> (\<exists>self'. calculate_statistics
         ((init None (Some ''categories.txt''))\<lparr>categorical_data := [''Math'', ''Physics'', ''Math'']\<rparr>)
         default_threshold = Inr self'
        \<and> dom (statistics self') = {''unique_categories''}
        \<and> statistics self' ''unique_categories'' = Some (Number (PyInt 2)))"
proof -
  have card2: "card (set [''Math'', ''Physics'', ''Math'']) = 2"
    using unique_example by (simp add: get_unique_categories_def Let_def)
  have pre: "numerical_data ((init None (Some ''categories.txt''))\<lparr>categorical_data := [''Math'', ''Physics'', ''Math'']\<rparr>) = []
      \<and> categorical_data ((init None (Some ''categories.txt''))\<lparr>categorical_data := [''Math'', ''Physics'', ''Math'']\<rparr>) \<noteq> []
      \<and> statistics ((init None (Some ''categories.txt''))\<lparr>categorical_data := [''Math'', ''Physics'', ''Math'']\<rparr>) = Map.empty"
    by (simp add: init_def)
  have cd: "categorical_data ((init None (Some ''categories.txt''))\<lparr>categorical_data := [''Math'', ''Physics'', ''Math'']\<rparr>) = [''Math'', ''Physics'', ''Math'']"
    by simp
  from calculate_statistics_categorical_only
    [of "(init None (Some ''categories.txt''))\<lparr>categorical_data := [''Math'', ''Physics'', ''Math'']\<rparr>"
        default_threshold] pre
  obtain self' where "calculate_statistics
         ((init None (Some ''categories.txt''))\<lparr>categorical_data := [''Math'', ''Physics'', ''Math'']\<rparr>)
         default_threshold = Inr self'"
    and "dom (statistics self') = {''unique_categories''}"
    and "statistics self' ''unique_categories'' = Some (Number (PyInt (int (card (set
        (categorical_data ((init None (Some ''categories.txt''))\<lparr>categorical_data := [''Math'', ''Physics'', ''Math'']\<rparr>)))))))"
    by blast
  then show ?thesis using pre unfolding cd card2 by auto
qed

lemma calculate_statistics_numeric_dom:
  assumes "numerical_data self \<noteq> []" and "calculate_statistics self t = Inr self'"
  shows "dom (statistics self')
         = {''total'', ''average'', ''minimum'', ''maximum'', ''count'', ''performance''}
           \<union> (if categorical_data self = [] then {} else {''unique_categories''})"
proof -
  from assms(2) obtain mid where mid: "numeric_block self t = Inr mid"
    and res: "self' = categorical_block mid"
    by (auto simp: calculate_statistics_def bind_exc_def split: sum.splits)
  note nb = numeric_block_dom [OF assms(1) mid]
  show ?thesis
  proof (cases "categorical_data self = []")
    case True
    with nb res show ?thesis by (simp add: categorical_block_def)
  next
    case False
    with nb have "categorical_data mid \<noteq> []" by simp
    then have "dom (statistics self') = insert ''unique_categories'' (dom (statistics mid))"
      unfolding res by (simp add: categorical_block_statistics)
    with nb False show ?thesis by auto
  qed
qed

text \<open>
  Claim C10. When the numeric data is not empty, \<open>calculate_statistics\<close> builds the
  statistics anew: the result does not depend on the statistics held before, the numeric
  block leaves exactly the six numeric keys, and the final mapping holds those six, plus
  \<open>unique_categories\<close> when there is categorical data; the call returns for every
  sequence a machine can hold. When the numeric data is empty and the categorical data is
  not, it only sets the key \<open>unique_categories\<close> and leaves every other key as it was.
\<close>

theorem calculate_statistics_frame:
  "(numerical_data self \<noteq> [] \<longrightarrow>
      calculate_statistics (self\<lparr>statistics := s\<rparr>) threshold
        = calculate_statistics self threshold
      \<and> (\<forall>mid. numeric_block self threshold = Inr mid \<longrightarrow>
            dom (statistics mid)
            = {''total'', ''average'', ''minimum'', ''maximum'', ''count'', ''performance''})
      \<and> (\<forall>self'. calculate_statistics self threshold = Inr self' \<longrightarrow>
            dom (statistics self')
            = {''total'', ''average'', ''minimum'', ''maximum'', ''count'', ''performance''}
              \<union> (if categorical_data self = [] then {} else {''unique_categories''})))
   \<and> (numerical_data self \<noteq> [] \<and> length (numerical_data self) < 2 ^ 1023 \<longrightarrow>
        (\<exists>self'. calculate_statistics self threshold = Inr self'))
   \<and> (numerical_data self = [] \<and> categorical_data self \<noteq> [] \<longrightarrow>
        (\<exists>self'. calculate_statistics self threshold = Inr self'
           \<and> statistics self'
               = (statistics self)(''unique_categories'' \<mapsto>
                    Number (PyInt (int (card (set (categorical_data self))))))))"
proof (intro conjI impI allI)
  assume "numerical_data self \<noteq> []"
  then show "calculate_statistics (self\<lparr>statistics := s\<rparr>) threshold
      = calculate_statistics self threshold"
    by (simp add: calculate_statistics_def numeric_block_statistics)
next
  fix mid
  assume "numerical_data self \<noteq> []" and "numeric_block self threshold = Inr mid"
  then show "dom (statistics mid)
      = {''total'', ''average'', ''minimum'', ''maximum'', ''count'', ''performance''}"
    by (simp only: numeric_block_dom)
next
  fix self'
  assume "numerical_data self \<noteq> []" and "calculate_statistics self threshold = Inr self'"
  then show "dom (statistics self')
      = {''total'', ''average'', ''minimum'', ''maximum'', ''count'', ''performance''}
        \<union> (if categorical_data self = [] then {} else {''unique_categories''})"
    by (rule calculate_statistics_numeric_dom)
next
  assume "numerical_data self \<noteq> [] \<and> length (numerical_data self) < 2 ^ 1023"
  then have a: "numerical_data self \<noteq> []" and b: "length (numerical_data self) < 2 ^ 1023"
    by (rule conjunct1, rule conjunct2)
  obtain mid where "numeric_block self threshold = Inr mid"
    using numeric_block_small [OF a b] by (rule exE)
  then show "\<exists>self'. calculate_statistics self threshold = Inr self'"
    by (simp add: calculate_statistics_def bind_exc_def)
next
  assume h: "numerical_data self = [] \<and> categorical_data self \<noteq> []"
  then have "calculate_statistics self threshold = Inr (categorical_block self)"
    by (simp add: calculate_statistics_def numeric_block_empty bind_exc_def)
  with h show "\<exists>self'. calculate_statistics self threshold = Inr self'
           \<and> statistics self'
               = (statistics self)(''unique_categories'' \<mapsto>
                    Number (PyInt (int (card (set (categorical_data self))))))"
    by (simp add: categorical_block_statistics)
qed

lemma stale_facts:
  "numerical_data stale_numeric = [Fin False 4503599627370496 (- 51)]"
  "categorical_data stale_numeric = []"
  "statistics stale_numeric = [''unique_categories'' \<mapsto> Number (PyInt 7)]"
  "numerical_data stale_categorical = []"
  "categorical_data stale_categorical = [''Math'']"
  "statistics stale_categorical = [''count'' \<mapsto> Number (PyInt 7)]"
  by (simp_all add: stale_numeric_def stale_categorical_def init_def)

theorem calculate_statistics_frame_witness:
  "numerical_data stale_numeric \<noteq> []
   \<and> length (numerical_data stale_numeric) < 2 ^ 1023
   \<and> statistics stale_numeric ''unique_categories'' = Some (Number (PyInt 7))
   \<and> (\<exists>self'. calculate_statistics stale_numeric default_threshold = Inr self'
         \<and> dom (statistics self')
            = {''total'', ''average'', ''minimum'', ''maximum'', ''count'', ''performance''}
         \<and> statistics self' ''unique_categories'' = None)
   \<and> numerical_data stale_categorical = []
   \<and> categorical_data stale_categorical \<noteq> []
   \<and> (\<exists>self'. calculate_statistics stale_categorical default_threshold = Inr self'
         \<and> statistics self'
            = [''count'' \<mapsto> Number (PyInt 7), ''unique_categories'' \<mapsto> Number (PyInt 1)])"
proof -
  have pre_n: "numerical_data stale_numeric \<noteq> []
      \<and> length (numerical_data stale_numeric) < 2 ^ 1023"
    by (simp add: stale_facts)
  have pre_c: "numerical_data stale_categorical = [] \<and> categorical_data stale_categorical \<noteq> []"
    by (simp add: stale_facts)
  note n = calculate_statistics_frame [of stale_numeric _ default_threshold,
      THEN conjunct2, THEN conjunct1, rule_format, OF pre_n]
  note c = calculate_statistics_frame [of stale_categorical _ default_threshold,
      THEN conjunct2, THEN conjunct2, rule_format, OF pre_c]
  from n obtain self' where r: "calculate_statistics stale_numeric default_threshold = Inr self'"
    by (rule exE)
  have ne: "numerical_data stale_numeric \<noteq> []" using pre_n by (rule conjunct1)
  have d: "dom (statistics self')
      = {''total'', ''average'', ''minimum'', ''maximum'', ''count'', ''performance''}"
    using calculate_statistics_numeric_dom [OF ne r] by (simp add: stale_facts)
  then have "''unique_categories'' \<notin> dom (statistics self')" by simp
  then have u: "statistics self' ''unique_categories'' = None" by (simp add: domIff)
  from c obtain self'' where r': "calculate_statistics stale_categorical default_threshold = Inr self''"
    and s': "statistics self'' = (statistics stale_categorical)(''unique_categories'' \<mapsto>
        Number (PyInt (int (card (set (categorical_data stale_categorical))))))"
    by (elim exE conjE)
  from s' have s'': "statistics self''
      = [''count'' \<mapsto> Number (PyInt 7), ''unique_categories'' \<mapsto> Number (PyInt 1)]"
    by (simp add: stale_facts)
  have "\<exists>self'. calculate_statistics stale_numeric default_threshold = Inr self'
         \<and> dom (statistics self')
            = {''total'', ''average'', ''minimum'', ''maximum'', ''count'', ''performance''}
         \<and> statistics self' ''unique_categories'' = None"
    using r d u by (intro exI conjI)
  moreover have "\<exists>self'. calculate_statistics stale_categorical default_threshold = Inr self'
         \<and> statistics self'
            = [''count'' \<mapsto> Number (PyInt 7), ''unique_categories'' \<mapsto> Number (PyInt 1)]"
    using r' s'' by (intro exI conjI)
  moreover have "statistics stale_numeric ''unique_categories'' = Some (Number (PyInt 7))"
    by (simp add: stale_facts)
  moreover note pre_n [THEN conjunct1] pre_n [THEN conjunct2]
    pre_c [THEN conjunct1] pre_c [THEN conjunct2]
  ultimately show ?thesis by (intro conjI)
qed

section \<open>The sample input\<close>

lemma sample_read: "read_numerical_data sample_world ''sample_data.csv'' = Inr sample_tokens"
  by code_simp

lemma sample_validated: "validate_numerical_data sample_tokens = Inr sample_values"
  by code_simp

lemma sample_length: "length sample_values = 20"
  by (simp add: sample_values_def)

lemma sample_total:
  "calculate_total sample_values = Inr (PyFloat (Fin False 7182009952632832 (- 42)))"
  by code_simp

lemma sample_average:
  "calculate_average sample_values = Inr (PyFloat (Fin False 5745607962106266 (- 46)))"
  by code_simp

lemma sample_literals:
  "py_float ''1633.0'' = Some (Fin False 7182009952632832 (- 42))"
  "py_float ''81.65'' = Some (Fin False 5745607962106266 (- 46))"
  by code_simp+

lemma sample_count:
  "bind_exc (numeric_block ((init None None)\<lparr>numerical_data := sample_values\<rparr>) default_threshold)
     (\<lambda>self. Inr (statistics self ''count'')) = Inr (Some (Number (PyInt 20)))"
  by (simp add: numeric_block_def sample_total sample_average sample_length bind_exc_def)
     (simp add: sample_values_def)

text \<open>
  Claim C9. The input \<open>85,92,78,65,88,91,76,82,95,70,73,89,81,67,94,79,86,90,68,84\<close>,
  read as a CSV file, gives twenty tokens; they validate to twenty values, and the
  statistics hold the count 20. Their total is the float \<open>1633.0\<close> and their average the
  float \<open>81.65\<close>, that is, the values that \<open>float\<close> gives for these two literals.
\<close>

theorem sample_statistics:
  "read_numerical_data sample_world ''sample_data.csv'' = Inr sample_tokens
   \<and> validate_numerical_data sample_tokens = Inr sample_values
   \<and> length sample_values = 20
   \<and> bind_exc (numeric_block ((init None None)\<lparr>numerical_data := sample_values\<rparr>)
                 default_threshold)
        (\<lambda>self. Inr (statistics self ''count'')) = Inr (Some (Number (PyInt 20)))
   \<and> calculate_total sample_values = Inr (PyFloat (Fin False 7182009952632832 (- 42)))
   \<and> py_float ''1633.0'' = Some (Fin False 7182009952632832 (- 42))
   \<and> calculate_average sample_values = Inr (PyFloat (Fin False 5745607962106266 (- 46)))
   \<and> py_float ''81.65'' = Some (Fin False 5745607962106266 (- 46))"
  by (intro conjI sample_read sample_validated sample_length sample_count sample_total
      sample_average sample_literals)

section \<open>Properties of the report writer\<close>

lemma save_report_returned:
  "returned (save_report fr w stats unique filename) \<longleftrightarrow>
     (\<exists>w'. open_write w filename = Inr w'
          \<and> fst (write_items w' filename (report_items fr stats unique)) = None)"
  by (auto simp: save_report_def split: sum.splits prod.splits option.splits)

lemma save_report_open_fails:
  assumes "write_error w filename = Some e"
  shows "returned (save_report fr w stats unique filename) = False"
    and "files (world_after (save_report fr w stats unique filename)) = files w"
    and "console (world_after (save_report fr w stats unique filename))
         = console w @ ['' Error saving report: '' @ message e]"
  using assms by (simp_all add: save_report_def open_write_def print_def)

lemma save_report_statistics:
  "statistics_after (save_report fr w stats unique filename) = stats"
  by (simp add: save_report_def split: sum.splits prod.splits option.splits)

lemma load_data_propagates:
  assumes "given (numerical_file self)"
    and "bind_exc (read_numerical_data w (the (numerical_file self))) validate_numerical_data
         = Inl e"
  shows "fst (load_data self w) = Some e"
  using assms by (simp add: load_data_def load_failed_def)

lemma load_categorical_propagates:
  assumes "\<not> given (numerical_file self)" and "given (categorical_file self)"
    and "read_categorical_data w (the (categorical_file self)) = Inl e"
  shows "fst (load_data self w) = Some e"
  using assms by (simp add: load_data_def load_categorical_def load_failed_def)

lemma readers_not_found:
  assumes "files w path = None" and "read_error w path = None"
  shows "read_numerical_data w path
         = Inl (Raised FileNotFoundError (''Error: File '' @ quoted path @ '' not found''))"
    and "read_categorical_data w path
         = Inl (Raised FileNotFoundError (''Error: File '' @ quoted path @ '' not found''))"
  using assms
  by (simp_all add: read_numerical_data_def read_categorical_data_def open_read_def bind_exc_def)

lemma full_world_report: "returned (save_report fr full_world Map.empty {} ''report.txt'') = False"
  by (simp add: save_report_def open_write_def full_world_def report_items_def file_write_def
      newline_def)

text \<open>
  Claim C7. \<open>save_report\<close> always returns a boolean, never an exception: it returns
  false exactly when opening the file, a write or the formatting of a value raised. In
  particular a path that cannot be opened for writing gives false, with a line printed
  and no file changed, and so does a device that runs out of space. The statistics
  mapping passed in is the same after the call. The other operations that can fail hand
  their exception to the caller: the readers raise for a missing file, and \<open>load_data\<close>
  raises what the readers and the validator raise.
\<close>

theorem save_report_failure:
  "(write_error w filename = Some e \<longrightarrow>
       returned (save_report fr w stats unique filename) = False
       \<and> files (world_after (save_report fr w stats unique filename)) = files w
       \<and> console (world_after (save_report fr w stats unique filename))
           = console w @ ['' Error saving report: '' @ message e])
   \<and> (returned (save_report fr w stats unique filename) \<longleftrightarrow>
        (\<exists>w'. open_write w filename = Inr w'
             \<and> fst (write_items w' filename (report_items fr stats unique)) = None))
   \<and> statistics_after (save_report fr w stats unique filename) = stats
   \<and> returned (save_report fr full_world Map.empty {} ''report.txt'') = False
   \<and> (files w path = None \<and> read_error w path = None \<longrightarrow>
        read_numerical_data w path
          = Inl (Raised FileNotFoundError (''Error: File '' @ quoted path @ '' not found''))
        \<and> read_categorical_data w path
          = Inl (Raised FileNotFoundError (''Error: File '' @ quoted path @ '' not found'')))
   \<and> (given (numerical_file self)
        \<and> bind_exc (read_numerical_data w (the (numerical_file self))) validate_numerical_data
            = Inl e'
      \<longrightarrow> fst (load_data self w) = Some e')
   \<and> (\<not> given (numerical_file self) \<and> given (categorical_file self)
        \<and> read_categorical_data w (the (categorical_file self)) = Inl e'
      \<longrightarrow> fst (load_data self w) = Some e')"
proof (intro conjI impI)
  show "returned (save_report fr w stats unique filename) \<longleftrightarrow>
        (\<exists>w'. open_write w filename = Inr w'
             \<and> fst (write_items w' filename (report_items fr stats unique)) = None)"
    by (rule save_report_returned)
  show "statistics_after (save_report fr w stats unique filename) = stats"
    by (rule save_report_statistics)
  show "returned (save_report fr full_world Map.empty {} ''report.txt'') = False"
    by (rule full_world_report)
qed (simp_all add: save_report_open_fails readers_not_found load_data_propagates
      load_categorical_propagates)

theorem save_report_failure_witness:
  "write_error readonly_world ''/readonly/report.txt''
     = Some (Raised OSError ''[Errno 13] Permission denied'')
   \<and> returned (save_report fixed2 readonly_world Map.empty {} ''/readonly/report.txt'') = False
   \<and> files (world_after (save_report fixed2 readonly_world Map.empty {} ''/readonly/report.txt''))
       = files readonly_world
   \<and> statistics_after (save_report fixed2 readonly_world Map.empty {} ''/readonly/report.txt'')
       = Map.empty
   \<and> files readonly_world ''missing.csv'' = None
   \<and> read_error readonly_world ''missing.csv'' = None
   \<and> given (numerical_file (init (Some ''missing.csv'') None))
   \<and> fst (load_data (init (Some ''missing.csv'') None) readonly_world)
       = Some (Raised FileNotFoundError (''Error: File '' @ quoted ''missing.csv'' @ '' not found''))"
proof -
  have we: "write_error readonly_world ''/readonly/report.txt''
      = Some (Raised OSError ''[Errno 13] Permission denied'')"
    by (simp add: readonly_world_def)
  have nf: "files readonly_world ''missing.csv'' = None \<and> read_error readonly_world ''missing.csv'' = None"
    by (simp add: readonly_world_def)
  have gv: "given (numerical_file (init (Some ''missing.csv'') None))"
    by (simp add: given_def init_def)
  have nm: "the (numerical_file (init (Some ''missing.csv'') None)) = ''missing.csv''"
    by (simp add: init_def)
  note inst = save_report_failure
    [of readonly_world "''/readonly/report.txt''" "Raised OSError ''[Errno 13] Permission denied''"
        fixed2 Map.empty "{}" "''missing.csv''" "init (Some ''missing.csv'') None"
        "Raised FileNotFoundError (''Error: File '' @ quoted ''missing.csv'' @ '' not found'')"]
  have a: "returned (save_report fixed2 readonly_world Map.empty {} ''/readonly/report.txt'') = False
      \<and> files (world_after (save_report fixed2 readonly_world Map.empty {} ''/readonly/report.txt''))
          = files readonly_world
      \<and> console (world_after (save_report fixed2 readonly_world Map.empty {} ''/readonly/report.txt''))
          = console readonly_world @ ['' Error saving report: ''
              @ message (Raised OSError ''[Errno 13] Permission denied'')]"
    using inst [THEN conjunct1, rule_format, OF we] .
  have b: "statistics_after (save_report fixed2 readonly_world Map.empty {} ''/readonly/report.txt'')
      = Map.empty"
    using inst [THEN conjunct2, THEN conjunct2, THEN conjunct1] .
  have c: "read_numerical_data readonly_world ''missing.csv''
      = Inl (Raised FileNotFoundError (''Error: File '' @ quoted ''missing.csv'' @ '' not found''))"
    using inst [THEN conjunct2, THEN conjunct2, THEN conjunct2, THEN conjunct2, THEN conjunct1,
      rule_format, OF nf, THEN conjunct1] .
  have d: "fst (load_data (init (Some ''missing.csv'') None) readonly_world)
      = Some (Raised FileNotFoundError (''Error: File '' @ quoted ''missing.csv'' @ '' not found''))"
  proof (rule inst [THEN conjunct2, THEN conjunct2, THEN conjunct2, THEN conjunct2,
      THEN conjunct2, THEN conjunct1, rule_format])
    show "given (numerical_file (init (Some ''missing.csv'') None))
        \<and> bind_exc (read_numerical_data readonly_world
              (the (numerical_file (init (Some ''missing.csv'') None))))
            validate_numerical_data
          = Inl (Raised FileNotFoundError (''Error: File '' @ quoted ''missing.csv'' @ '' not found''))"
      using gv unfolding nm c by (simp add: bind_exc_def)
  qed
  from we a [THEN conjunct1] a [THEN conjunct2, THEN conjunct1] b
    nf [THEN conjunct1] nf [THEN conjunct2] gv d
  show ?thesis by (intro conjI)
qed

end
